theory Spec2Isabelle
  imports Complex_Main "HOL-Library.Signed_Division"
begin

section \<open>Data model\<close>

text \<open>
  The TypeScript \<open>number\<close> is modelled by \<open>real\<close> where the code computes with scores,
  thresholds and probabilities, and by \<open>int\<close> where it counts, indexes or holds a
  percentage weight. Rounding, \<open>NaN\<close> and the infinities of IEEE doubles are outside
  the model. A timestamp is the millisecond count that \<open>new Date(iso).getTime()\<close> reads
  back from the ISO-8601 string the snapshot stores.
\<close>

type_synonym timestamp = int

datatype DeploymentLifecycleState =
  IDLE | PENDING | STAGE | PAUSED | ROLLING_BACK | ROLLED_BACK | PROMOTED

datatype FinalState = Final_PROMOTED | Final_ROLLED_BACK

datatype GateComparison = not_worse_than_baseline | better_than_baseline | absolute_only

record Gate =
  scorer :: string
  threshold :: real
  comparison :: GateComparison
  confidence :: real

record DeploymentStage =
  weight :: int
  duration :: "string option"
  min_samples :: int
  gates :: "Gate list"

record RollbackConfig =
  on_score_drop :: real
  on_error_rate :: real
  cooldown :: string

text \<open>
  Of the deployment configuration the controller, the gate evaluator and the router read
  the name, the stages and the rollback thresholds; the remaining sections (runtime,
  variants, monitor, notifications, server) are not read by the operations modelled here.
\<close>

record Deployment =
  name_d :: string
  project :: string
  stages :: "DeploymentStage list"
  rollback_d :: RollbackConfig

record DeploymentConfig =
  deployment :: Deployment

text \<open>
  An optional field (\<open>completedAt?\<close>) is an \<open>option\<close>. \<open>pausedStageIndex\<close> may be
  absent, \<open>null\<close> or a number; every read of it goes through \<open>??\<close>, which treats absent
  and \<open>null\<close> alike, so both are \<open>None\<close>.
\<close>

record DeploymentSnapshot =
  id_s :: string
  name :: string
  config :: DeploymentConfig
  state :: DeploymentLifecycleState
  stageIndex :: int
  stageEnteredAt :: timestamp
  startedAt :: timestamp
  completedAt :: "timestamp option"
  finalState :: "FinalState option"
  pausedStageIndex :: "int option"
  canaryWeight :: int
  reason :: "string option"

text \<open>
  \<open>Partial<DeploymentSnapshot>\<close>: every field of the snapshot may be named or not.
  \<open>None\<close> is a field the patch does not name, \<open>Some v\<close> a field it sets to \<open>v\<close>.
\<close>

record SnapshotPatch =
  p_id :: "string option"
  p_name :: "string option"
  p_config :: "DeploymentConfig option"
  p_state :: "DeploymentLifecycleState option"
  p_stageIndex :: "int option"
  p_stageEnteredAt :: "timestamp option"
  p_startedAt :: "timestamp option"
  p_completedAt :: "timestamp option option"
  p_finalState :: "FinalState option option"
  p_pausedStageIndex :: "int option option"
  p_canaryWeight :: "int option"
  p_reason :: "string option option"

definition emptyPatch :: SnapshotPatch where
  "emptyPatch = \<lparr> p_id = None, p_name = None, p_config = None, p_state = None,
     p_stageIndex = None, p_stageEnteredAt = None, p_startedAt = None,
     p_completedAt = None, p_finalState = None, p_pausedStageIndex = None,
     p_canaryWeight = None, p_reason = None \<rparr>"

datatype error =
  InvalidTransition DeploymentLifecycleState DeploymentLifecycleState
  | InsufficientSamples
  | ControllerError string
  | QueryFailed string
  | InvalidDuration string
  | TypeError

section \<open>State machine (state/machine.ts)\<close>

fun ALLOWED :: "DeploymentLifecycleState \<Rightarrow> DeploymentLifecycleState list" where
  "ALLOWED IDLE = [PENDING]"
| "ALLOWED PENDING = [STAGE, ROLLING_BACK]"
| "ALLOWED STAGE = [STAGE, PAUSED, ROLLING_BACK, PROMOTED]"
| "ALLOWED PAUSED = [STAGE, ROLLING_BACK]"
| "ALLOWED ROLLING_BACK = [ROLLED_BACK]"
| "ALLOWED ROLLED_BACK = []"
| "ALLOWED PROMOTED = []"

definition assertTransitionAllowed ::
  "DeploymentLifecycleState \<Rightarrow> DeploymentLifecycleState \<Rightarrow> error + unit" where
  "assertTransitionAllowed from to =
     (if to \<notin> set (ALLOWED from) then Inl (InvalidTransition from to) else Inr ())"

text \<open>The object spread \<open>{...snapshot, state: to, ...patch}\<close>: later entries win.\<close>

definition over :: "'a \<Rightarrow> 'a option \<Rightarrow> 'a" where
  "over old new = (case new of None \<Rightarrow> old | Some v \<Rightarrow> v)"

definition applyPatch :: "DeploymentSnapshot \<Rightarrow> SnapshotPatch \<Rightarrow> DeploymentSnapshot" where
  "applyPatch s p =
     \<lparr> id_s = over (id_s s) (p_id p),
       name = over (name s) (p_name p),
       config = over (config s) (p_config p),
       state = over (state s) (p_state p),
       stageIndex = over (stageIndex s) (p_stageIndex p),
       stageEnteredAt = over (stageEnteredAt s) (p_stageEnteredAt p),
       startedAt = over (startedAt s) (p_startedAt p),
       completedAt = over (completedAt s) (p_completedAt p),
       finalState = over (finalState s) (p_finalState p),
       pausedStageIndex = over (pausedStageIndex s) (p_pausedStageIndex p),
       canaryWeight = over (canaryWeight s) (p_canaryWeight p),
       reason = over (reason s) (p_reason p) \<rparr>"

definition transitionSnapshot ::
  "DeploymentSnapshot \<Rightarrow> DeploymentLifecycleState \<Rightarrow> SnapshotPatch
     \<Rightarrow> error + DeploymentSnapshot" where
  "transitionSnapshot snapshot to patch =
     (case assertTransitionAllowed (state snapshot) to of
        Inl e \<Rightarrow> Inl e
      | Inr _ \<Rightarrow> Inr (applyPatch (snapshot\<lparr>state := to\<rparr>) patch))"

text \<open>The transition table as the specification prints it, as a set of pairs.\<close>

definition allowed_table :: "(DeploymentLifecycleState \<times> DeploymentLifecycleState) set" where
  "allowed_table =
     {(IDLE, PENDING),
      (PENDING, STAGE), (PENDING, ROLLING_BACK),
      (STAGE, STAGE), (STAGE, PAUSED), (STAGE, ROLLING_BACK), (STAGE, PROMOTED),
      (PAUSED, STAGE), (PAUSED, ROLLING_BACK),
      (ROLLING_BACK, ROLLED_BACK)}"

section \<open>Student-t distribution (statistics/distributions.ts)\<close>

text \<open>
  The transcendental functions are those of the reals. Inside these functions a division
  by zero, which the source answers with an infinity or \<open>NaN\<close>, is the \<open>0\<close> of HOL
  except in the comparison that steers the recursion of \<open>regularizedIncompleteBeta\<close>,
  where it is written out (\<open>gt_quot\<close>); the callers below reach these functions with
  positive degrees of freedom only.
\<close>

definition EPSILON :: real where
  "EPSILON = 1 / 10 ^ 30"

text \<open>\<open>if (Math.abs(d) < EPSILON) d = EPSILON\<close>, the guard of Lentz's method.\<close>

definition guard :: "real \<Rightarrow> real" where
  "guard d = (if \<bar>d\<bar> < EPSILON then EPSILON else d)"

definition coeffs :: "real list" where
  "coeffs =
     [0.99999999999980993,
      676.5203681218851,
      -1259.1392167224028,
      771.32342877765313,
      -176.61502916214059,
      12.507343278686905,
      -0.13857109526572012,
      9.9843695780195716 / 10 ^ 6,
      1.5056327351493116 / 10 ^ 7]"

function lnGamma :: "real \<Rightarrow> real" where
  "lnGamma z =
     (if z < 0.5 then ln (pi / sin (pi * z)) - lnGamma (1 - z)
      else
        let z = z - 1;
            x = foldl (\<lambda>x i. x + coeffs ! i / (z + real i)) (coeffs ! 0) [1..<length coeffs];
            t = z + real (length coeffs) - 1.5
        in 0.5 * ln (2 * pi) + (z + 0.5) * ln t - t + ln x)"
  by pat_completeness auto
termination
  by (relation "measure (\<lambda>z. if z < 0.5 then 1 else 0)") auto

text \<open>
  \<open>x > p / q\<close> as the source evaluates it: with a zero divisor the quotient is an
  infinity of the sign of \<open>p\<close> (or \<open>NaN\<close> when \<open>p\<close> is zero too), so the comparison
  holds exactly when \<open>p\<close> is negative.
\<close>

definition gt_quot :: "real \<Rightarrow> real \<Rightarrow> real \<Rightarrow> bool" where
  "gt_quot x p q = (if q = 0 then p < 0 else x > p / q)"

text \<open>
  The loop \<open>for (m = 1; m <= 250; m++)\<close> of the continued fraction, with its
  \<open>break\<close>; \<open>f\<close>, \<open>c\<close> and \<open>d\<close> are the loop's variables.
\<close>

function lentz :: "real \<Rightarrow> real \<Rightarrow> real \<Rightarrow> nat \<Rightarrow> real \<Rightarrow> real \<Rightarrow> real \<Rightarrow> real" where
  "lentz x a b m f c d =
     (if m \<le> 250 then
        let numerator = (real m * (b - real m) * x) / ((a + 2 * real m - 1) * (a + 2 * real m));
            d = guard (1 + numerator * d);
            c = guard (1 + numerator / c);
            d = 1 / d;
            f = f * (c * d);
            numerator = (- (a + real m) * (a + b + real m) * x)
                          / ((a + 2 * real m) * (a + 2 * real m + 1));
            d = guard (1 + numerator * d);
            c = guard (1 + numerator / c);
            d = 1 / d;
            delta = c * d;
            f = f * delta
        in if \<bar>delta - 1\<bar> < 1 / 10 ^ 11 then f else lentz x a b (m + 1) f c d
      else f)"
  by pat_completeness auto
termination
  by (relation "measure (\<lambda>(x, a, b, m, f, c, d). 251 - m)") auto

lemma gt_quot_flip:
  assumes h: "gt_quot x (a + 1) (a + b + 2)"
  shows "\<not> gt_quot (1 - x) (b + 1) (b + a + 2)"
proof (cases "a + b + 2 = 0")
  case True
  with h have "a + 1 < 0" by (simp add: gt_quot_def)
  with True have "\<not> b + 1 < 0" by linarith
  with True show ?thesis by (simp add: gt_quot_def add.commute)
next
  case False
  have eq: "(b + 1) / (b + a + 2) = 1 - (a + 1) / (a + b + 2)"
    using False by (simp add: field_simps)
  from h False have "x > (a + 1) / (a + b + 2)" by (simp add: gt_quot_def)
  then show ?thesis using False eq by (simp add: gt_quot_def add.commute)
qed

function regularizedIncompleteBeta :: "real \<Rightarrow> real \<Rightarrow> real \<Rightarrow> real" where
  "regularizedIncompleteBeta x a b =
     (if x \<le> 0 then 0
      else if x \<ge> 1 then 1
      else if gt_quot x (a + 1) (a + b + 2) then 1 - regularizedIncompleteBeta (1 - x) b a
      else
        let lnBeta = lnGamma a + lnGamma b - lnGamma (a + b);
            front = exp (a * ln x + b * ln (1 - x) - lnBeta) / a;
            d = guard (1 - ((a + b) * x) / (a + 1));
            d = 1 / d;
            f = d
        in front * lentz x a b 1 f 1 d)"
  by pat_completeness auto
termination
  by (relation "measure (\<lambda>(x, a, b).
        if 0 < x \<and> x < 1 \<and> gt_quot x (a + 1) (a + b + 2) then 1 else 0)")
     (auto dest: gt_quot_flip)

definition tDistCDF :: "real \<Rightarrow> real \<Rightarrow> real" where
  "tDistCDF t df =
     (let x = df / (df + t * t);
          p = 0.5 * regularizedIncompleteBeta x (df / 2) 0.5
      in if t \<ge> 0 then 1 - p else p)"

text \<open>The 120 bisection steps of \<open>tDistQuantile\<close>; the first argument counts the steps left.\<close>

fun bisect :: "nat \<Rightarrow> real \<Rightarrow> real \<Rightarrow> real \<Rightarrow> real \<Rightarrow> real \<times> real" where
  "bisect 0 p df lo hi = (lo, hi)"
| "bisect (Suc k) p df lo hi =
     (let mid = (lo + hi) / 2
      in if tDistCDF mid df < p then bisect k p df mid hi else bisect k p df lo mid)"

definition tDistQuantile :: "real \<Rightarrow> real \<Rightarrow> real" where
  "tDistQuantile p df = (case bisect 120 p df (-50) 50 of (lo, hi) \<Rightarrow> (lo + hi) / 2)"

section \<open>Welch's t-test (statistics/welch.ts)\<close>

record TTestResult =
  tStatistic :: real
  degreesOfFreedom :: real
  pValueTwoSided :: real
  pValueOneSided :: real
  t_baselineMean :: real
  t_canaryMean :: real
  baselineStd :: real
  canaryStd :: real
  t_baselineN :: nat
  t_canaryN :: nat
  meanDifference :: real
  confidenceInterval95 :: "real \<times> real"

definition welchTTest :: "real list \<Rightarrow> real list \<Rightarrow> error + TTestResult" where
  "welchTTest baseline canary =
     (let n1 = length baseline; n2 = length canary
      in if n1 < 2 \<or> n2 < 2 then Inl InsufficientSamples
         else
           let mean1 = foldl (\<lambda>sum value. sum + value) 0 baseline / real n1;
               mean2 = foldl (\<lambda>sum value. sum + value) 0 canary / real n2;
               var1 = foldl (\<lambda>sum value. sum + (value - mean1) ^ 2) 0 baseline / (real n1 - 1);
               var2 = foldl (\<lambda>sum value. sum + (value - mean2) ^ 2) 0 canary / (real n2 - 1);
               se = sqrt (var1 / real n1 + var2 / real n2)
           in if se = 0 then
                Inr \<lparr> tStatistic = 0,
                      degreesOfFreedom = real n1 + real n2 - 2,
                      pValueTwoSided = 1,
                      pValueOneSided = 0.5,
                      t_baselineMean = mean1,
                      t_canaryMean = mean2,
                      baselineStd = sqrt var1,
                      canaryStd = sqrt var2,
                      t_baselineN = n1,
                      t_canaryN = n2,
                      meanDifference = mean2 - mean1,
                      confidenceInterval95 = (0, 0) \<rparr>
              else
                let tStatistic = (mean2 - mean1) / se;
                    numerator = (var1 / real n1 + var2 / real n2) ^ 2;
                    denominator = (var1 / real n1) ^ 2 / (real n1 - 1)
                                    + (var2 / real n2) ^ 2 / (real n2 - 1);
                    degreesOfFreedom = numerator / denominator;
                    pValueTwoSided = 2 * tDistCDF (- \<bar>tStatistic\<bar>) degreesOfFreedom;
                    pValueOneSided = tDistCDF tStatistic degreesOfFreedom;
                    critical = tDistQuantile 0.975 degreesOfFreedom;
                    delta = critical * se
                in Inr \<lparr> tStatistic = tStatistic,
                         degreesOfFreedom = degreesOfFreedom,
                         pValueTwoSided = pValueTwoSided,
                         pValueOneSided = pValueOneSided,
                         t_baselineMean = mean1,
                         t_canaryMean = mean2,
                         baselineStd = sqrt var1,
                         canaryStd = sqrt var2,
                         t_baselineN = n1,
                         t_canaryN = n2,
                         meanDifference = mean2 - mean1,
                         confidenceInterval95 = (mean2 - mean1 - delta, mean2 - mean1 + delta) \<rparr>)"




section \<open>Gate evaluator (statistics/evaluate-gate.ts)\<close>

record StatsLike =
  count :: int
  average :: real
  rawSamples :: "real list"

datatype GateStatus = passing | failing | insufficient_data

record GateResult =
  r_scorer :: string
  status :: GateStatus
  pValue :: "real option"
  baselineMean :: real
  canaryMean :: real
  baselineN :: int
  canaryN :: int
  absoluteCheck :: bool
  comparisonCheck :: bool
  confidenceRequired :: real

definition evaluateGate :: "Gate \<Rightarrow> StatsLike \<Rightarrow> StatsLike \<Rightarrow> int \<Rightarrow> error + GateResult" where
  "evaluateGate gate baselineStats canaryStats minSamples =
     (let baselineMean = average baselineStats;
          canaryMean = average canaryStats;
          baselineN = count baselineStats;
          canaryN = count canaryStats
      in if canaryN < minSamples \<or> baselineN < 10 then
           Inr \<lparr> r_scorer = scorer gate,
                 status = insufficient_data,
                 pValue = None,
                 baselineMean = baselineMean,
                 canaryMean = canaryMean,
                 baselineN = baselineN,
                 canaryN = canaryN,
                 absoluteCheck = False,
                 comparisonCheck = False,
                 confidenceRequired = confidence gate \<rparr>
         else
           let absoluteCheck = (canaryMean \<ge> threshold gate)
           in if comparison gate \<noteq> absolute_only then
                (case welchTTest (rawSamples baselineStats) (rawSamples canaryStats) of
                   Inl e \<Rightarrow> Inl e
                 | Inr result \<Rightarrow>
                     let pValue = pValueOneSided result;
                         comparisonCheck =
                           (if comparison gate = not_worse_than_baseline
                            then pValue \<ge> 1 - confidence gate
                            else 1 - pValue \<ge> confidence gate)
                     in Inr \<lparr> r_scorer = scorer gate,
                              status = (if absoluteCheck \<and> comparisonCheck then passing else failing),
                              pValue = Some pValue,
                              baselineMean = baselineMean,
                              canaryMean = canaryMean,
                              baselineN = baselineN,
                              canaryN = canaryN,
                              absoluteCheck = absoluteCheck,
                              comparisonCheck = comparisonCheck,
                              confidenceRequired = confidence gate \<rparr>)
              else
                Inr \<lparr> r_scorer = scorer gate,
                      status = (if absoluteCheck \<and> True then passing else failing),
                      pValue = None,
                      baselineMean = baselineMean,
                      canaryMean = canaryMean,
                      baselineN = baselineN,
                      canaryN = canaryN,
                      absoluteCheck = absoluteCheck,
                      comparisonCheck = True,
                      confidenceRequired = confidence gate \<rparr>)"

section \<open>Router (state/router.ts)\<close>

text \<open>
  \<open>stableHash\<close> is imported from \<open>utils/hash.ts\<close>, whose code is not part of this
  development; it is a parameter of \<open>chooseVersion\<close>. \<open>%\<close> is the remainder that truncates towards zero
  (\<open>smod\<close>), \<open>if (stickyValue)\<close> holds for a string that is present and not empty, and
  \<open>random\<close> is the draw that the default argument \<open>Math.random()\<close> supplies.
\<close>

datatype Version = V_baseline | V_canary

record RoutingDecision =
  version :: Version
  rd_canaryWeight :: int
  rd_stageIndex :: int

definition chooseVersion ::
  "(string \<Rightarrow> int) \<Rightarrow> DeploymentSnapshot option \<Rightarrow> string option \<Rightarrow> real \<Rightarrow> RoutingDecision" where
  "chooseVersion stableHash snapshot stickyValue random =
     (case snapshot of
        None \<Rightarrow> \<lparr> version = V_baseline, rd_canaryWeight = 0, rd_stageIndex = 0 \<rparr>
      | Some snap \<Rightarrow>
          if state snap \<notin> set [STAGE, PAUSED, PENDING] then
            \<lparr> version = V_baseline, rd_canaryWeight = 0, rd_stageIndex = stageIndex snap \<rparr>
          else
            let canaryWeight = canaryWeight snap
            in if canaryWeight \<le> 0 then
                 \<lparr> version = V_baseline, rd_canaryWeight = canaryWeight,
                   rd_stageIndex = stageIndex snap \<rparr>
               else
                 let bucket =
                       (case stickyValue of
                          Some s \<Rightarrow> if s \<noteq> [] then stableHash s smod 100
                                    else \<lfloor>random * 100\<rfloor>
                        | None \<Rightarrow> \<lfloor>random * 100\<rfloor>)
                 in \<lparr> version = (if bucket < canaryWeight then V_canary else V_baseline),
                      rd_canaryWeight = canaryWeight,
                      rd_stageIndex = stageIndex snap \<rparr>)"

section \<open>Running statistics (statistics/running.ts)\<close>

text \<open>
  \<open>add\<close> calls \<open>Math.random()\<close> once the reservoir is full; the model takes the draw it
  would get as the argument \<open>rnd\<close>.
\<close>

record RunningStats =
  rs_n :: int
  rs_mean :: real
  rs_m2 :: real
  rs_samples :: "real list"

definition MAX_SAMPLES :: nat where
  "MAX_SAMPLES = 10000"

definition newRunningStats :: RunningStats where
  "newRunningStats = \<lparr> rs_n = 0, rs_mean = 0, rs_m2 = 0, rs_samples = [] \<rparr>"

definition rs_add :: "RunningStats \<Rightarrow> real \<Rightarrow> real \<Rightarrow> RunningStats" where
  "rs_add st v rnd =
     (let n = rs_n st + 1;
          delta = v - rs_mean st;
          mean = rs_mean st + delta / real_of_int n;
          delta2 = v - mean;
          m2 = rs_m2 st + delta * delta2
      in if length (rs_samples st) < MAX_SAMPLES then
           \<lparr> rs_n = n, rs_mean = mean, rs_m2 = m2, rs_samples = rs_samples st @ [v] \<rparr>
         else
           let index = \<lfloor>rnd * real_of_int n\<rfloor>
           in \<lparr> rs_n = n, rs_mean = mean, rs_m2 = m2,
                rs_samples = (if index < int MAX_SAMPLES
                              then (rs_samples st)[nat index := v] else rs_samples st) \<rparr>)"



section \<open>Score snapshots (state/types.ts)\<close>

text \<open>
  A score snapshot is an object keyed by scorer; it is kept as the list of its entries in
  insertion order, and \<open>assign\<close> is the assignment \<open>snapshot[scorer] = v\<close>.
\<close>

record VersionScoreStats =
  vs_mean :: real
  vs_std :: real
  vs_n :: int

record ScorerSummary =
  s_baseline :: VersionScoreStats
  s_canary :: VersionScoreStats

type_synonym ScoreSnapshot = "(string \<times> ScorerSummary) list"


section \<open>BTQL client (braintrust/btql-client.ts)\<close>

text \<open>
  The HTTP exchange of \<open>query\<close>, with its retries and back-off, is outside the model. An
  \<open>Exchange\<close> is what one call of \<open>query\<close> went through: the requests it sent, how many
  were rate limited, the last back-off it slept, when it finished, and its answer, the
  rows or the message of the error it throws. \<open>query\<close> applies the bookkeeping of the
  source to the diagnostics. A row's \<open>scores\<close> maps a scorer to its score when that is a
  number, and \<open>created\<close> is the time the ISO string denotes.
\<close>

record BTQLRow =
  row_id :: "string option"
  row_scores :: "string \<rightharpoonup> real"
  created :: timestamp
  row_error :: "string option"

datatype HealthStatus = healthy | degraded

record MonitorDiagnostics =
  d_status :: HealthStatus
  consecutiveFailures :: nat
  totalRequests :: nat
  totalRateLimited :: nat
  lastSuccessAt :: "timestamp option"
  lastErrorAt :: "timestamp option"
  lastError :: "string option"
  lastBackoffMs :: "int option"






section \<open>Score monitor (monitor/score-monitor.ts)\<close>

text \<open>
  One call of \<open>poll\<close> is modelled as a whole, from the two exchanges it awaits to the
  events it emits, in order, and the monitor it leaves; \<open>btql\<close> is the state of the client
  the monitor holds. Listeners are taken to be attached and to return normally (the
  controller attaches one for each of the three events). \<open>rndB\<close> and \<open>rndC\<close> give the
  random draw for the row and scorer at which \<open>add\<close> is called.
\<close>

record ScoreMonitorConfig =
  deploymentId :: string
  projectName :: string
  pollInterval :: string
  stageStartTime :: timestamp
  scorerNames :: "string list"
  scorerLagGrace :: string

record ScoreMonitor =
  m_config :: ScoreMonitorConfig
  btql :: MonitorDiagnostics
  baselineStats :: "string \<rightharpoonup> RunningStats"
  canaryStats :: "string \<rightharpoonup> RunningStats"
  baselineWatermark :: timestamp
  canaryWatermark :: timestamp
  inFlight :: bool
  canaryTotal :: nat
  canaryErrors :: nat


definition resetStats :: "ScoreMonitor \<Rightarrow> ScoreMonitor" where
  "resetStats m =
     m\<lparr> baselineStats :=
          foldl (\<lambda>t scorerName. t(scorerName \<mapsto> newRunningStats)) Map.empty (scorerNames (m_config m)),
        canaryStats :=
          foldl (\<lambda>t scorerName. t(scorerName \<mapsto> newRunningStats)) Map.empty (scorerNames (m_config m)) \<rparr>"


definition resetForStage :: "ScoreMonitor \<Rightarrow> timestamp \<Rightarrow> ScoreMonitor" where
  "resetForStage m stageStart =
     resetStats (m\<lparr> baselineWatermark := stageStart, canaryWatermark := stageStart,
                    canaryErrors := 0, canaryTotal := 0 \<rparr>)"

definition errorRateCanary :: "ScoreMonitor \<Rightarrow> real" where
  "errorRateCanary m =
     (if canaryTotal m > 0 then real (canaryErrors m) / real (canaryTotal m) else 0)"

fun addScores ::
  "(nat \<Rightarrow> real) \<Rightarrow> BTQLRow \<Rightarrow> nat \<Rightarrow> string list
     \<Rightarrow> (string \<rightharpoonup> RunningStats) \<Rightarrow> (string \<rightharpoonup> RunningStats)" where
  "addScores rnd row j [] target = target"
| "addScores rnd row j (scorerName # rest) target =
     addScores rnd row (Suc j) rest
       (case row_scores row scorerName of
          None \<Rightarrow> target
        | Some score \<Rightarrow>
            (case target scorerName of
               None \<Rightarrow> target
             | Some st \<Rightarrow> target(scorerName \<mapsto> rs_add st score (rnd j))))"






section \<open>Durations (utils/duration.ts)\<close>

text \<open>
  \<open>parseDuration\<close> matches the trimmed input against its regular expression: the leading
  digits, at least one, and then exactly one of the units \<open>ms\<close>, \<open>s\<close>, \<open>m\<close>, \<open>h\<close>.
\<close>

definition is_digit :: "char \<Rightarrow> bool" where
  "is_digit ch = (ch \<in> set ''0123456789'')"

definition is_space :: "char \<Rightarrow> bool" where
  "is_space ch = (ch \<in> {CHR '' '', CHR 0x09, CHR 0x0A, CHR 0x0B, CHR 0x0C, CHR 0x0D})"

definition trim :: "string \<Rightarrow> string" where
  "trim s = rev (dropWhile is_space (rev (dropWhile is_space s)))"

definition Number :: "string \<Rightarrow> int" where
  "Number ds = foldl (\<lambda>a ch. 10 * a + (int (of_char ch) - 48)) 0 ds"

definition parseDuration :: "string \<Rightarrow> error + int" where
  "parseDuration input =
     (let t = trim input;
          digits = takeWhile is_digit t;
          unit = dropWhile is_digit t
      in if digits = [] then Inl (InvalidDuration input)
         else if unit = ''ms'' then Inr (Number digits * 1)
         else if unit = ''s'' then Inr (Number digits * 1000)
         else if unit = ''m'' then Inr (Number digits * 60000)
         else if unit = ''h'' then Inr (Number digits * 3600000)
         else Inl (InvalidDuration input))"

section \<open>Stage controller (state/stage-controller.ts)\<close>

text \<open>
  The controller is a record of its fields. The store it writes to is kept as the list of
  the calls made on it, oldest first, and the event bus as the list of the events
  emitted; store calls are taken to succeed. The monitor the controller holds is the
  monitor's state. An operation returns the error it throws, if any, together with the
  controller it leaves: what was assigned before a \<open>throw\<close> stays assigned. Every reading
  of the clock within one operation gives \<open>now\<close>.

  \<open>elementAt\<close> is indexing, \<open>xs[i]\<close>, which is \<open>undefined\<close> out of range; reading a field of
  \<open>undefined\<close> raises a type error. \<open>truthy\<close> is the test \<open>if (v)\<close> on an optional
  string. \<open>controller_evaluateGate\<close> is the controller's private method \<open>evaluateGate\<close>.
\<close>

definition elementAt :: "'a list \<Rightarrow> int \<Rightarrow> 'a option" where
  "elementAt xs i = (if 0 \<le> i \<and> i < int (length xs) then Some (xs ! nat i) else None)"

definition truthy :: "string option \<Rightarrow> bool" where
  "truthy v = (case v of None \<Rightarrow> False | Some s \<Rightarrow> s \<noteq> [])"

datatype NextAction = hold | auto_promote | rollback_action

record StageDecision =
  promote_d :: bool
  rollback_flag :: bool
  sd_nextAction :: NextAction
  sd_reason :: "string option"
  gateResults :: "GateResult list"
  sd_timeRemainingMs :: int

datatype EventData =
  E_deployment_started string string int int
  | E_score_update ScoreSnapshot
  | E_gate_status "GateResult list" NextAction int
  | E_stage_change int int int
  | E_paused int
  | E_resumed int
  | E_rollback_triggered string int int
  | E_deployment_complete FinalState

record DeploymentEvent =
  deployment_id :: string
  timestamp_e :: timestamp
  data :: EventData

datatype StoreCall =
  createDeployment DeploymentSnapshot
  | updateDeployment DeploymentSnapshot
  | recordTransition string DeploymentLifecycleState DeploymentLifecycleState string ScoreSnapshot
  | recordScoreSnapshot string int ScoreSnapshot
  | recordEvent DeploymentEvent

record StageController =
  snapshot :: "DeploymentSnapshot option"
  latestScores :: ScoreSnapshot
  latestGates :: "GateResult list"
  nextAction :: NextAction
  timeRemainingMs :: "int option"
  monitor :: "ScoreMonitor option"
  store :: "StoreCall list"
  bus :: "DeploymentEvent list"

definition newStageController :: StageController where
  "newStageController = \<lparr> snapshot = None, latestScores = [], latestGates = [],
     nextAction = hold, timeRemainingMs = None, monitor = None, store = [], bus = [] \<rparr>"

type_synonym outcome = "error option \<times> StageController"

definition seq :: "outcome \<Rightarrow> (StageController \<Rightarrow> outcome) \<Rightarrow> outcome" where
  "seq r f = (case r of (None, c) \<Rightarrow> f c | (Some e, c) \<Rightarrow> (Some e, c))"

definition emit :: "StageController \<Rightarrow> timestamp \<Rightarrow> EventData \<Rightarrow> StageController" where
  "emit c now d =
     (case snapshot c of
        None \<Rightarrow> c
      | Some s \<Rightarrow>
          let event = \<lparr> deployment_id = id_s s, timestamp_e = now, data = d \<rparr>
          in c\<lparr> store := store c @ [recordEvent event], bus := bus c @ [event] \<rparr>)"

definition transition ::
  "StageController \<Rightarrow> DeploymentLifecycleState \<Rightarrow> string \<Rightarrow> SnapshotPatch \<Rightarrow> outcome" where
  "transition c to why patch =
     (case snapshot c of
        None \<Rightarrow> (Some (ControllerError ''No active deployment''), c)
      | Some s \<Rightarrow>
          (case transitionSnapshot s to patch of
             Inl e \<Rightarrow> (Some e, c)
           | Inr s' \<Rightarrow>
               (None, c\<lparr> snapshot := Some s',
                         store := store c @ [updateDeployment s',
                                   recordTransition (id_s s') (state s) to why (latestScores c)] \<rparr>)))"

definition makeRunningStats :: "real \<Rightarrow> real \<Rightarrow> int \<Rightarrow> StatsLike" where
  "makeRunningStats mean std n =
     (let samples =
            (if n \<le> 1 then (if n = 1 then [mean] else [])
             else map (\<lambda>i. mean + (if even i then std else - std)) [0..<nat n])
      in \<lparr> count = n, average = mean,
           rawSamples = (if length samples > 1 then samples else [mean, mean]) \<rparr>)"

definition controller_evaluateGate ::
  "Gate \<Rightarrow> DeploymentStage \<Rightarrow> ScoreSnapshot \<Rightarrow> error + GateResult" where
  "controller_evaluateGate gate stage scores =
     (let baseline = map_option s_baseline (map_of scores (scorer gate));
          canary = map_option s_canary (map_of scores (scorer gate));
          bStats = makeRunningStats
            (case baseline of None \<Rightarrow> 0 | Some b \<Rightarrow> vs_mean b)
            (case baseline of None \<Rightarrow> 0 | Some b \<Rightarrow> vs_std b)
            (case baseline of None \<Rightarrow> 0 | Some b \<Rightarrow> vs_n b);
          cStats = makeRunningStats
            (case canary of None \<Rightarrow> 0 | Some c \<Rightarrow> vs_mean c)
            (case canary of None \<Rightarrow> 0 | Some c \<Rightarrow> vs_std c)
            (case canary of None \<Rightarrow> 0 | Some c \<Rightarrow> vs_n c)
      in evaluateGate gate bStats cStats (min_samples stage))"

definition evaluateRollback :: "StageController \<Rightarrow> GateResult list \<Rightarrow> real \<Rightarrow> string option" where
  "evaluateRollback c gs canaryErrorRate =
     (case snapshot c of
        None \<Rightarrow> None
      | Some s \<Rightarrow>
          let rollbackConfig = rollback_d (deployment (config s))
          in case find (\<lambda>gate. status gate = failing
                          \<and> (case pValue gate of None \<Rightarrow> False | Some p \<Rightarrow> p < 0.01)) gs of
               Some regressing \<Rightarrow> Some (''score_regression:'' @ r_scorer regressing)
             | None \<Rightarrow>
                 (case find (\<lambda>gate. baselineMean gate - canaryMean gate
                                      > on_score_drop rollbackConfig) gs of
                    Some absoluteDrop \<Rightarrow> Some (''absolute_drop:'' @ r_scorer absoluteDrop)
                  | None \<Rightarrow>
                      if canaryErrorRate > on_error_rate rollbackConfig
                      then Some ''error_rate_exceeded'' else None))"

definition currentCanaryErrorRate :: "StageController \<Rightarrow> real" where
  "currentCanaryErrorRate c = (case monitor c of None \<Rightarrow> 0 | Some m \<Rightarrow> errorRateCanary m)"

fun mapResult :: "('a \<Rightarrow> error + 'b) \<Rightarrow> 'a list \<Rightarrow> error + 'b list" where
  "mapResult f [] = Inr []"
| "mapResult f (x # xs) =
     (case f x of
        Inl e \<Rightarrow> Inl e
      | Inr y \<Rightarrow> (case mapResult f xs of Inl e \<Rightarrow> Inl e | Inr ys \<Rightarrow> Inr (y # ys)))"

definition evaluateStage ::
  "StageController \<Rightarrow> ScoreSnapshot \<Rightarrow> real \<Rightarrow> timestamp \<Rightarrow> error + StageDecision" where
  "evaluateStage c scores canaryErrorRate now =
     (case snapshot c of
        None \<Rightarrow>
          Inr \<lparr> promote_d = False, rollback_flag = False, sd_nextAction = hold,
                sd_reason = None, gateResults = [], sd_timeRemainingMs = 0 \<rparr>
      | Some s \<Rightarrow>
          (case elementAt (stages (deployment (config s))) (stageIndex s) of
             None \<Rightarrow> Inl TypeError
           | Some stage \<Rightarrow>
               (case mapResult (\<lambda>gate. controller_evaluateGate gate stage scores) (gates stage) of
                  Inl e \<Rightarrow> Inl e
                | Inr results \<Rightarrow>
                    (case (if truthy (duration stage)
                           then parseDuration (case duration stage of Some d \<Rightarrow> d | None \<Rightarrow> [])
                           else Inr 0) of
                       Inl e \<Rightarrow> Inl e
                     | Inr durationMs \<Rightarrow>
                         let elapsed = now - stageEnteredAt s;
                             remaining = max 0 (durationMs - elapsed);
                             durationElapsed = (elapsed \<ge> durationMs);
                             samplesReached =
                               list_all (\<lambda>result. canaryN result \<ge> min_samples stage) results;
                             allPassing = (length results > 0
                               \<and> list_all (\<lambda>result. status result = passing) results);
                             rollbackReason = evaluateRollback c results canaryErrorRate
                         in if truthy rollbackReason then
                              Inr \<lparr> promote_d = False, rollback_flag = True,
                                    sd_nextAction = rollback_action, sd_reason = rollbackReason,
                                    gateResults = results, sd_timeRemainingMs = remaining \<rparr>
                            else
                              let promote = (allPassing \<and> durationElapsed \<and> samplesReached)
                              in Inr \<lparr> promote_d = promote, rollback_flag = False,
                                       sd_nextAction = (if promote then auto_promote else hold),
                                       sd_reason = None, gateResults = results,
                                       sd_timeRemainingMs = remaining \<rparr>))))"

definition startDeployment ::
  "StageController \<Rightarrow> DeploymentConfig \<Rightarrow> string \<Rightarrow> timestamp \<Rightarrow> outcome" where
  "startDeployment c cfg depId now =
     (case elementAt (stages (deployment cfg)) 0 of
        None \<Rightarrow> (Some TypeError, c)
      | Some firstStage \<Rightarrow>
          let pending = \<lparr> id_s = depId, name = name_d (deployment cfg), config = cfg,
                 state = PENDING, stageIndex = 0, stageEnteredAt = now, startedAt = now,
                 completedAt = None, finalState = None, pausedStageIndex = None,
                 canaryWeight = weight firstStage, reason = None \<rparr>;
              c1 = c\<lparr> store := store c @ [createDeployment pending], snapshot := Some pending \<rparr>;
              c2 = emit c1 now
                     (E_deployment_started depId (name pending) 0 (weight firstStage))
          in transition c2 STAGE ''deployment_initialized''
               (emptyPatch\<lparr> p_canaryWeight := Some (weight firstStage),
                             p_stageEnteredAt := Some now \<rparr>))"

definition attachMonitor :: "StageController \<Rightarrow> ScoreMonitor \<Rightarrow> StageController" where
  "attachMonitor c m = c\<lparr> monitor := Some m \<rparr>"

definition pause :: "StageController \<Rightarrow> timestamp \<Rightarrow> outcome" where
  "pause c now =
     (case snapshot c of
        None \<Rightarrow> (Some (ControllerError ''Cannot pause when deployment is not in STAGE''), c)
      | Some s \<Rightarrow>
          if state s \<noteq> STAGE
          then (Some (ControllerError ''Cannot pause when deployment is not in STAGE''), c)
          else seq (transition c PAUSED ''manual_pause''
                      (emptyPatch\<lparr> p_pausedStageIndex := Some (Some (stageIndex s)) \<rparr>))
                 (\<lambda>c1. (None, emit c1 now
                     (E_paused (case snapshot c1 of Some s1 \<Rightarrow> stageIndex s1 | None \<Rightarrow> 0)))))"

definition resume :: "StageController \<Rightarrow> timestamp \<Rightarrow> outcome" where
  "resume c now =
     (case snapshot c of
        None \<Rightarrow> (Some (ControllerError ''Cannot resume when deployment is not paused''), c)
      | Some s \<Rightarrow>
          if state s \<noteq> PAUSED
          then (Some (ControllerError ''Cannot resume when deployment is not paused''), c)
          else
            let idx = (case pausedStageIndex s of Some i \<Rightarrow> i | None \<Rightarrow> stageIndex s)
            in case elementAt (stages (deployment (config s))) idx of
                 None \<Rightarrow> (Some TypeError, c)
               | Some stage \<Rightarrow>
                   seq (transition c STAGE ''manual_resume''
                          (emptyPatch\<lparr> p_stageIndex := Some idx,
                                        p_stageEnteredAt := Some now,
                                        p_pausedStageIndex := Some None,
                                        p_canaryWeight := Some (weight stage) \<rparr>))
                     (\<lambda>c1. (None, emit c1 now (E_resumed idx))))"

definition advanceStage :: "StageController \<Rightarrow> string \<Rightarrow> timestamp \<Rightarrow> outcome" where
  "advanceStage c why now =
     (case snapshot c of
        None \<Rightarrow> (None, c)
      | Some s \<Rightarrow>
          let stagesList = stages (deployment (config s));
              nextIndex = stageIndex s + 1
          in if nextIndex \<ge> int (length stagesList) then
               seq (transition c PROMOTED why
                      (emptyPatch\<lparr> p_canaryWeight := Some 100,
                                    p_finalState := Some (Some Final_PROMOTED),
                                    p_completedAt := Some (Some now) \<rparr>))
                 (\<lambda>c1. (None, emit c1 now (E_deployment_complete Final_PROMOTED)))
             else
               (case elementAt stagesList nextIndex of
                  None \<Rightarrow> (Some TypeError, c)
                | Some next \<Rightarrow>
                    seq (transition c STAGE why
                           (emptyPatch\<lparr> p_stageIndex := Some nextIndex,
                                         p_stageEnteredAt := Some now,
                                         p_canaryWeight := Some (weight next) \<rparr>))
                      (\<lambda>c1.
                         let c2 = (case monitor c1 of
                                     None \<Rightarrow> c1
                                   | Some m \<Rightarrow>
                                       c1\<lparr> monitor := Some (resetForStage m
                                              (case snapshot c1 of Some s1 \<Rightarrow> stageEnteredAt s1
                                               | None \<Rightarrow> now)) \<rparr>)
                         in (None, emit c2 now
                               (E_stage_change (stageIndex s) nextIndex (weight next))))))"

definition rollback :: "StageController \<Rightarrow> string \<Rightarrow> timestamp \<Rightarrow> outcome" where
  "rollback c why now =
     (case snapshot c of
        None \<Rightarrow> (Some (ControllerError ''No active deployment to rollback''), c)
      | Some s \<Rightarrow>
          if state s \<in> set [ROLLED_BACK, PROMOTED, IDLE]
          then (Some (ControllerError ''No active deployment to rollback''), c)
          else
            seq (transition c ROLLING_BACK why
                   (emptyPatch\<lparr> p_canaryWeight := Some 0, p_reason := Some (Some why) \<rparr>))
              (\<lambda>c1.
                 seq (transition c1 ROLLED_BACK why
                        (emptyPatch\<lparr> p_finalState := Some (Some Final_ROLLED_BACK),
                                      p_completedAt := Some (Some now),
                                      p_canaryWeight := Some 0,
                                      p_reason := Some (Some why) \<rparr>))
                   (\<lambda>c2.
                      let c3 = emit c2 now
                                 (E_rollback_triggered why
                                    (case snapshot c2 of Some s2 \<Rightarrow> stageIndex s2 | None \<Rightarrow> 0) 0)
                      in (None, emit c3 now (E_deployment_complete Final_ROLLED_BACK)))))"

definition promote :: "StageController \<Rightarrow> bool \<Rightarrow> timestamp \<Rightarrow> outcome" where
  "promote c force now =
     (case snapshot c of
        None \<Rightarrow> (Some (ControllerError ''Cannot promote in current state''), c)
      | Some s \<Rightarrow>
          if state s \<notin> set [STAGE, PAUSED]
          then (Some (ControllerError ''Cannot promote in current state''), c)
          else if \<not> force \<and> state s = STAGE then
            (case evaluateStage c (latestScores c) (currentCanaryErrorRate c) now of
               Inl e \<Rightarrow> (Some e, c)
             | Inr decision \<Rightarrow>
                 if \<not> promote_d decision
                 then (Some (ControllerError
                         ''Gate checks are not passing; use --force to override''), c)
                 else advanceStage c ''manual_promote'' now)
          else advanceStage c ''manual_promote'' now)"

definition onScoreUpdate :: "StageController \<Rightarrow> ScoreSnapshot \<Rightarrow> timestamp \<Rightarrow> outcome" where
  "onScoreUpdate c scores now =
     (let c0 = c\<lparr> latestScores := scores \<rparr>
      in case snapshot c0 of
           None \<Rightarrow> (None, c0)
         | Some s \<Rightarrow>
             if state s \<noteq> STAGE then (None, c0)
             else
               let c1 = c0\<lparr> store := store c0
                               @ [recordScoreSnapshot (id_s s) (stageIndex s) scores] \<rparr>;
                   c2 = emit c1 now (E_score_update scores)
               in case evaluateStage c2 scores (currentCanaryErrorRate c2) now of
                    Inl e \<Rightarrow> (Some e, c2)
                  | Inr decision \<Rightarrow>
                      let c3 = c2\<lparr> latestGates := gateResults decision,
                                    nextAction := sd_nextAction decision,
                                    timeRemainingMs := Some (sd_timeRemainingMs decision) \<rparr>;
                          c4 = emit c3 now
                                 (E_gate_status (gateResults decision) (sd_nextAction decision)
                                    (sd_timeRemainingMs decision))
                      in if rollback_flag decision then
                           rollback c4
                             (case sd_reason decision of Some r \<Rightarrow> r
                              | None \<Rightarrow> ''rollback_triggered'') now
                         else if promote_d decision then advanceStage c4 ''auto_promote'' now
                         else (None, c4))"

text \<open>
  A run of the controller: operations performed one after the other on a new controller.
  An operation that throws leaves the controller as it is at that point, and the next
  operation goes on from there. \<open>Op_attachMonitor\<close> also stands for the monitor having
  moved on between two operations.
\<close>

datatype Operation =
  Op_startDeployment DeploymentConfig string timestamp
  | Op_attachMonitor ScoreMonitor
  | Op_onScoreUpdate ScoreSnapshot timestamp
  | Op_pause timestamp
  | Op_resume timestamp
  | Op_promote bool timestamp
  | Op_rollback string timestamp

fun perform :: "StageController \<Rightarrow> Operation \<Rightarrow> StageController" where
  "perform c (Op_startDeployment cfg depId now) = snd (startDeployment c cfg depId now)"
| "perform c (Op_attachMonitor m) = attachMonitor c m"
| "perform c (Op_onScoreUpdate scores now) = snd (onScoreUpdate c scores now)"
| "perform c (Op_pause now) = snd (pause c now)"
| "perform c (Op_resume now) = snd (resume c now)"
| "perform c (Op_promote force now) = snd (promote c force now)"
| "perform c (Op_rollback why now) = snd (rollback c why now)"

definition run :: "Operation list \<Rightarrow> StageController" where
  "run ops = foldl perform newStageController ops"

definition snapshotsOf :: "StageController \<Rightarrow> DeploymentSnapshot set" where
  "snapshotsOf c =
     {s. snapshot c = Some s \<or> createDeployment s \<in> set (store c)
           \<or> updateDeployment s \<in> set (store c)}"

section \<open>Properties of the specification\<close>

text \<open>
  The two rollback conditions on a gate result, the first position of a list at which a
  condition holds, and the weight invariant of a snapshot.
\<close>

definition score_regression :: "GateResult \<Rightarrow> bool" where
  "score_regression g = (status g = failing \<and> (\<exists>p. pValue g = Some p \<and> p < 0.01))"

definition absolute_drop :: "RollbackConfig \<Rightarrow> GateResult \<Rightarrow> bool" where
  "absolute_drop rc g = (baselineMean g - canaryMean g > on_score_drop rc)"

definition first_with :: "('a \<Rightarrow> bool) \<Rightarrow> 'a list \<Rightarrow> nat \<Rightarrow> bool" where
  "first_with P xs i = (i < length xs \<and> P (xs ! i) \<and> (\<forall>j<i. \<not> P (xs ! j)))"

definition weightInvariant :: "DeploymentSnapshot \<Rightarrow> bool" where
  "weightInvariant s =
     ((state s \<in> {STAGE, PAUSED} \<longrightarrow>
         (\<exists>st. elementAt (stages (deployment (config s))) (stageIndex s) = Some st
               \<and> canaryWeight s = weight st))
      \<and> (state s \<in> {ROLLING_BACK, ROLLED_BACK} \<longrightarrow> canaryWeight s = 0)
      \<and> (state s = PROMOTED \<longrightarrow> canaryWeight s = 100))"

text \<open>
  \<open>grows c c'\<close>: the latest scores are unchanged and the store of \<open>c'\<close> is that of \<open>c\<close> with
  further calls appended. \<open>allOk c\<close>: every snapshot the controller holds or has handed to
  the store satisfies the weight invariant.
\<close>

definition grows :: "StageController \<Rightarrow> StageController \<Rightarrow> bool" where
  "grows c c' = (latestScores c' = latestScores c \<and> (\<exists>ext. store c' = store c @ ext))"

definition allOk :: "StageController \<Rightarrow> bool" where
  "allOk c = (\<forall>s\<in>snapshotsOf c. weightInvariant s)"

section \<open>Example inputs\<close>

text \<open>
  A gate on the scorer \<open>Q\<close> and a statistics object that holds \<open>n\<close> samples of one
  value, as a \<open>RunningStats\<close> does after \<open>n\<close> calls of \<open>add\<close> with that value.
\<close>

definition ex_gate :: "GateComparison \<Rightarrow> Gate" where
  "ex_gate cmp = \<lparr> scorer = ''Q'', threshold = 0.5, comparison = cmp, confidence = 0.95 \<rparr>"

definition ex_stats :: "nat \<Rightarrow> real \<Rightarrow> StatsLike" where
  "ex_stats n v = \<lparr> count = int n, average = v, rawSamples = replicate n v \<rparr>"

text \<open>
  The configuration of the clean-promotion scenario (a 5 percent stage gated on \<open>Q\<close>,
  then the full rollout), a snapshot of it, and a stand-in for the hash.
\<close>

definition ex_config :: DeploymentConfig where
  "ex_config = \<lparr> deployment = \<lparr> name_d = ''demo'', project = ''demo'',
      stages = [\<lparr> weight = 5, duration = Some ''1ms'', min_samples = 2,
                  gates = [ex_gate not_worse_than_baseline] \<rparr>,
                \<lparr> weight = 100, duration = None, min_samples = 30, gates = [] \<rparr>],
      rollback_d = \<lparr> on_score_drop = 0.1, on_error_rate = 0.05, cooldown = ''5m'' \<rparr> \<rparr> \<rparr>"

definition ex_snapshot :: "DeploymentLifecycleState \<Rightarrow> int \<Rightarrow> DeploymentSnapshot" where
  "ex_snapshot st w = \<lparr> id_s = ''dep-1'', name = ''demo'', config = ex_config, state = st,
      stageIndex = 0, stageEnteredAt = 1000, startedAt = 1000, completedAt = None,
      finalState = None, pausedStageIndex = None, canaryWeight = w, reason = None \<rparr>"

definition ex_hash :: "string \<Rightarrow> int" where
  "ex_hash s = int (length s)"




text \<open>
  Gate results, a controller holding a snapshot, a score snapshot for \<open>Q\<close>, and two runs:
  a deployment started and paused, and one taken through pause, resume and two forced
  promotions.
\<close>

definition ex_result :: "GateStatus \<Rightarrow> real option \<Rightarrow> real \<Rightarrow> real \<Rightarrow> GateResult" where
  "ex_result st p b cm = \<lparr> r_scorer = ''Q'', status = st, pValue = p, baselineMean = b,
     canaryMean = cm, baselineN = 10, canaryN = 10, absoluteCheck = (st = passing),
     comparisonCheck = (st = passing), confidenceRequired = 0.95 \<rparr>"

definition ex_controller :: "DeploymentLifecycleState \<Rightarrow> StageController" where
  "ex_controller st = newStageController\<lparr> snapshot := Some (ex_snapshot st 5) \<rparr>"

definition ex_gates :: "GateResult list" where
  "ex_gates = [ex_result passing (Some 0.5) 0.9 0.9,
               ex_result failing (Some 0.001) 0.9 0.7,
               ex_result failing (Some 0.002) 0.9 0.7]"

definition ex_scores :: ScoreSnapshot where
  "ex_scores = [(''Q'', \<lparr> s_baseline = \<lparr> vs_mean = 0.9, vs_std = 0.01, vs_n = 10 \<rparr>,
                          s_canary = \<lparr> vs_mean = 0.9, vs_std = 0.01, vs_n = 10 \<rparr> \<rparr>)]"

definition ex_paused :: StageController where
  "ex_paused = run [Op_startDeployment ex_config ''dep-1'' 1000, Op_pause 1500]"

definition ex_ops :: "Operation list" where
  "ex_ops = [Op_startDeployment ex_config ''dep-1'' 1000, Op_pause 1500, Op_resume 1600,
             Op_promote True 1700, Op_promote True 1800]"

section \<open>Theorems\<close>

text \<open>
  C4. A transition from one lifecycle state to another succeeds exactly when the pair
  is in the allowed table, and every other pair fails with the invalid-transition
  error carrying the two states; the transition from PENDING to ROLLING_BACK succeeds,
  and nothing leaves ROLLED_BACK or PROMOTED.
\<close>

theorem assertTransitionAllowed_table:
  "(assertTransitionAllowed from to = Inr ()) = ((from, to) \<in> allowed_table)
   \<and> ((from, to) \<notin> allowed_table \<longrightarrow>
        assertTransitionAllowed from to = Inl (InvalidTransition from to))
   \<and> assertTransitionAllowed PENDING ROLLING_BACK = Inr ()
   \<and> assertTransitionAllowed ROLLED_BACK to \<noteq> Inr ()
   \<and> assertTransitionAllowed PROMOTED to \<noteq> Inr ()"
  by (cases "from"; cases to)
     (simp_all add: assertTransitionAllowed_def allowed_table_def)

theorem assertTransitionAllowed_table_witness:
  "(assertTransitionAllowed IDLE PROMOTED = Inr ()) = ((IDLE, PROMOTED) \<in> allowed_table)
   \<and> (IDLE, PROMOTED) \<notin> allowed_table
   \<and> assertTransitionAllowed IDLE PROMOTED = Inl (InvalidTransition IDLE PROMOTED)
   \<and> assertTransitionAllowed STAGE STAGE = Inr ()"
  using assertTransitionAllowed_table [of IDLE PROMOTED]
    assertTransitionAllowed_table [of STAGE STAGE]
  by (simp add: allowed_table_def)

subsection \<open>Welch's t-test\<close>






subsection \<open>Gate evaluator\<close>

lemma welch_returns:
  "2 \<le> length b \<Longrightarrow> 2 \<le> length c \<Longrightarrow> \<exists>w. welchTTest b c = Inr w"
  by (simp add: welchTTest_def Let_def)

lemma welch_throws:
  "length b < 2 \<or> length c < 2 \<Longrightarrow> welchTTest b c = Inl InsufficientSamples"
  by (auto simp add: welchTTest_def Let_def)

lemma evaluateGate_insufficient_branch:
  assumes "count cStats < minSamples \<or> count bStats < 10"
  shows "evaluateGate gate bStats cStats minSamples =
     Inr \<lparr> r_scorer = scorer gate, status = insufficient_data, pValue = None,
           baselineMean = average bStats, canaryMean = average cStats,
           baselineN = count bStats, canaryN = count cStats,
           absoluteCheck = False, comparisonCheck = False,
           confidenceRequired = confidence gate \<rparr>"
  using assms by (auto simp add: evaluateGate_def Let_def)

lemma evaluateGate_absolute_only:
  assumes "minSamples \<le> count cStats" "10 \<le> count bStats"
    and "comparison gate = absolute_only"
  shows "evaluateGate gate bStats cStats minSamples =
     Inr \<lparr> r_scorer = scorer gate,
           status = (if threshold gate \<le> average cStats then passing else failing),
           pValue = None,
           baselineMean = average bStats, canaryMean = average cStats,
           baselineN = count bStats, canaryN = count cStats,
           absoluteCheck = (threshold gate \<le> average cStats), comparisonCheck = True,
           confidenceRequired = confidence gate \<rparr>"
  using assms by (simp add: evaluateGate_def Let_def)

lemma evaluateGate_welch:
  assumes "minSamples \<le> count cStats" "10 \<le> count bStats"
    and "comparison gate \<noteq> absolute_only"
    and "welchTTest (rawSamples bStats) (rawSamples cStats) = Inr w"
  shows "evaluateGate gate bStats cStats minSamples =
     Inr \<lparr> r_scorer = scorer gate,
           status = (if threshold gate \<le> average cStats
                       \<and> (if comparison gate = not_worse_than_baseline
                            then 1 - confidence gate \<le> pValueOneSided w
                            else confidence gate \<le> 1 - pValueOneSided w)
                     then passing else failing),
           pValue = Some (pValueOneSided w),
           baselineMean = average bStats, canaryMean = average cStats,
           baselineN = count bStats, canaryN = count cStats,
           absoluteCheck = (threshold gate \<le> average cStats),
           comparisonCheck = (if comparison gate = not_worse_than_baseline
                            then 1 - confidence gate \<le> pValueOneSided w
                            else confidence gate \<le> 1 - pValueOneSided w),
           confidenceRequired = confidence gate \<rparr>"
  using assms by (simp add: evaluateGate_def Let_def)

lemma evaluateGate_throws:
  assumes "minSamples \<le> count cStats" "10 \<le> count bStats"
    and "comparison gate \<noteq> absolute_only"
    and "length (rawSamples bStats) < 2 \<or> length (rawSamples cStats) < 2"
  shows "evaluateGate gate bStats cStats minSamples = Inl InsufficientSamples"
  using assms welch_throws [of "rawSamples bStats" "rawSamples cStats"]
  by (simp add: evaluateGate_def Let_def)

text \<open>
  C1 (amended). When the canary count is at least \<open>minSamples\<close> and the baseline count at
  least 10, and either the comparison is \<open>absolute_only\<close> or both raw-sample arrays hold
  at least two values, \<open>evaluateGate\<close> returns a result whose absolute check is
  \<open>canaryMean \<ge> threshold\<close>, whose comparison check is true with no p-value for
  \<open>absolute_only\<close>, \<open>pValue \<ge> 1 - confidence\<close> for \<open>not_worse_than_baseline\<close> and
  \<open>1 - pValue \<ge> confidence\<close> for \<open>better_than_baseline\<close>, the p-value being the one-sided
  p-value of \<open>welchTTest\<close> on the two raw-sample arrays; the status is passing exactly when
  both checks hold and failing otherwise. The counterexample is the claim without the
  condition on the raw samples: one canary sample with \<open>min_samples = 1\<close> makes
  \<open>welchTTest\<close> raise, and \<open>evaluateGate\<close> returns no status.
\<close>

theorem evaluateGate_status:
  assumes nc: "minSamples \<le> count cStats" and nb: "10 \<le> count bStats"
    and raw: "comparison gate = absolute_only
              \<or> (2 \<le> length (rawSamples bStats) \<and> 2 \<le> length (rawSamples cStats))"
  shows "\<exists>r. evaluateGate gate bStats cStats minSamples = Inr r
     \<and> absoluteCheck r = (threshold gate \<le> average cStats)
     \<and> (case comparison gate of
          absolute_only \<Rightarrow> comparisonCheck r \<and> pValue r = None
        | not_worse_than_baseline \<Rightarrow>
            (\<exists>w. welchTTest (rawSamples bStats) (rawSamples cStats) = Inr w
               \<and> pValue r = Some (pValueOneSided w)
               \<and> comparisonCheck r = (1 - confidence gate \<le> pValueOneSided w))
        | better_than_baseline \<Rightarrow>
            (\<exists>w. welchTTest (rawSamples bStats) (rawSamples cStats) = Inr w
               \<and> pValue r = Some (pValueOneSided w)
               \<and> comparisonCheck r = (confidence gate \<le> 1 - pValueOneSided w)))
     \<and> (status r = passing) = (absoluteCheck r \<and> comparisonCheck r)
     \<and> (status r = failing) = (\<not> (absoluteCheck r \<and> comparisonCheck r))"
proof (cases "comparison gate = absolute_only")
  case True
  from evaluateGate_absolute_only [OF nc nb True] True show ?thesis by simp
next
  case False
  with raw have "2 \<le> length (rawSamples bStats)" "2 \<le> length (rawSamples cStats)"
    by simp_all
  then obtain w where w: "welchTTest (rawSamples bStats) (rawSamples cStats) = Inr w"
    using welch_returns by blast
  from evaluateGate_welch [OF nc nb False w] w False show ?thesis
    by (cases "comparison gate") simp_all
qed

theorem evaluateGate_status_witness:
  "\<exists>r. evaluateGate (ex_gate not_worse_than_baseline) (ex_stats 10 0.5) (ex_stats 2 0.75) 2 = Inr r
     \<and> absoluteCheck r \<and> comparisonCheck r \<and> pValue r = Some (1 / 2) \<and> status r = passing"
proof -
  have w: "welchTTest (replicate 10 0.5) (replicate 2 0.75) =
     Inr \<lparr> tStatistic = 0, degreesOfFreedom = 10, pValueTwoSided = 1, pValueOneSided = 0.5,
           t_baselineMean = 0.5, t_canaryMean = 0.75, baselineStd = 0, canaryStd = 0,
           t_baselineN = 10, t_canaryN = 2, meanDifference = 0.25,
           confidenceInterval95 = (0, 0) \<rparr>"
    by (simp add: welchTTest_def Let_def numeral_eq_Suc)
  show ?thesis
    using evaluateGate_status [of 2 "ex_stats 2 0.75" "ex_stats 10 0.5"
        "ex_gate not_worse_than_baseline"] w
    by (auto simp add: ex_gate_def ex_stats_def)
qed

theorem evaluateGate_status_counterexample:
  "1 \<le> count (ex_stats 1 0.75) \<and> 10 \<le> count (ex_stats 10 0.5)
   \<and> evaluateGate (ex_gate better_than_baseline) (ex_stats 10 0.5) (ex_stats 1 0.75) 1
       = Inl InsufficientSamples
   \<and> (\<nexists>r. evaluateGate (ex_gate better_than_baseline) (ex_stats 10 0.5) (ex_stats 1 0.75) 1
       = Inr r)"
  by (simp add: evaluateGate_def welchTTest_def Let_def ex_gate_def ex_stats_def)

text \<open>
  C9 (amended). If the canary count is below \<open>minSamples\<close> or the baseline count below 10,
  \<open>evaluateGate\<close> returns the status \<open>insufficient_data\<close> with no p-value and both checks
  false. If both counts suffice, it never returns \<open>insufficient_data\<close>: it returns passing
  or failing when the comparison is \<open>absolute_only\<close> or both raw-sample arrays hold at
  least two values, and raises the too-few-samples error of \<open>welchTTest\<close> otherwise. The
  counterexample is the claim's second half at one canary sample with \<open>min_samples = 1\<close>:
  no passing or failing result is returned.
\<close>

theorem evaluateGate_insufficient_data:
  "(count cStats < minSamples \<or> count bStats < 10 \<longrightarrow>
      (\<exists>r. evaluateGate gate bStats cStats minSamples = Inr r
         \<and> status r = insufficient_data \<and> pValue r = None
         \<and> \<not> absoluteCheck r \<and> \<not> comparisonCheck r))
   \<and> (minSamples \<le> count cStats \<and> 10 \<le> count bStats \<longrightarrow>
        (\<forall>r. evaluateGate gate bStats cStats minSamples = Inr r
            \<longrightarrow> status r = passing \<or> status r = failing)
      \<and> (comparison gate = absolute_only
            \<or> (2 \<le> length (rawSamples bStats) \<and> 2 \<le> length (rawSamples cStats))
          \<longrightarrow> (\<exists>r. evaluateGate gate bStats cStats minSamples = Inr r
                 \<and> (status r = passing \<or> status r = failing)))
      \<and> (comparison gate \<noteq> absolute_only
            \<and> (length (rawSamples bStats) < 2 \<or> length (rawSamples cStats) < 2)
          \<longrightarrow> evaluateGate gate bStats cStats minSamples = Inl InsufficientSamples))"
proof (intro conjI impI)
  assume "count cStats < minSamples \<or> count bStats < 10"
  from evaluateGate_insufficient_branch [OF this]
  show "\<exists>r. evaluateGate gate bStats cStats minSamples = Inr r
         \<and> status r = insufficient_data \<and> pValue r = None
         \<and> \<not> absoluteCheck r \<and> \<not> comparisonCheck r"
    by simp
next
  assume ok: "minSamples \<le> count cStats \<and> 10 \<le> count bStats"
  show "\<forall>r. evaluateGate gate bStats cStats minSamples = Inr r
            \<longrightarrow> status r = passing \<or> status r = failing"
    using ok by (auto simp add: evaluateGate_def Let_def split: sum.splits if_splits)
next
  assume ok: "minSamples \<le> count cStats \<and> 10 \<le> count bStats"
    and raw: "comparison gate = absolute_only
            \<or> (2 \<le> length (rawSamples bStats) \<and> 2 \<le> length (rawSamples cStats))"
  show "\<exists>r. evaluateGate gate bStats cStats minSamples = Inr r
                 \<and> (status r = passing \<or> status r = failing)"
  proof (cases "comparison gate = absolute_only")
    case True
    with ok evaluateGate_absolute_only [of minSamples cStats bStats gate]
    show ?thesis by simp
  next
    case False
    with raw obtain w where
      "welchTTest (rawSamples bStats) (rawSamples cStats) = Inr w"
      using welch_returns by blast
    with ok False evaluateGate_welch [of minSamples cStats bStats gate w]
    show ?thesis by simp
  qed
next
  assume "minSamples \<le> count cStats \<and> 10 \<le> count bStats"
    and "comparison gate \<noteq> absolute_only
            \<and> (length (rawSamples bStats) < 2 \<or> length (rawSamples cStats) < 2)"
  then show "evaluateGate gate bStats cStats minSamples = Inl InsufficientSamples"
    using evaluateGate_throws by blast
qed

theorem evaluateGate_insufficient_data_witness:
  "(\<exists>r. evaluateGate (ex_gate absolute_only) (ex_stats 10 0.5) (ex_stats 29 0.75) 30 = Inr r
        \<and> status r = insufficient_data \<and> pValue r = None
        \<and> \<not> absoluteCheck r \<and> \<not> comparisonCheck r)
   \<and> (\<exists>r. evaluateGate (ex_gate absolute_only) (ex_stats 10 0.5) (ex_stats 30 0.75) 30 = Inr r
        \<and> (status r = passing \<or> status r = failing))
   \<and> evaluateGate (ex_gate not_worse_than_baseline) (ex_stats 10 0.5) (ex_stats 1 0.75) 1
        = Inl InsufficientSamples"
  using evaluateGate_insufficient_data [of "ex_stats 29 0.75" 30 "ex_stats 10 0.5" "ex_gate absolute_only"]
    evaluateGate_insufficient_data [of "ex_stats 30 0.75" 30 "ex_stats 10 0.5" "ex_gate absolute_only"]
    evaluateGate_insufficient_data [of "ex_stats 1 0.75" 1 "ex_stats 10 0.5"
      "ex_gate not_worse_than_baseline"]
  by (simp add: ex_gate_def ex_stats_def)

theorem evaluateGate_insufficient_data_counterexample:
  "1 \<le> count (ex_stats 1 0.75) \<and> 10 \<le> count (ex_stats 10 0.5)
   \<and> \<not> (\<exists>r. evaluateGate (ex_gate not_worse_than_baseline) (ex_stats 10 0.5) (ex_stats 1 0.75) 1
              = Inr r \<and> (status r = passing \<or> status r = failing))"
  by (simp add: evaluateGate_def welchTTest_def Let_def ex_gate_def ex_stats_def)

subsection \<open>Snapshot transition\<close>

text \<open>
  C10 (amended). For a snap0 \<open>s\<close>, a target state allowed from the state of \<open>s\<close>, and a
  patch \<open>p\<close>, \<open>transitionSnapshot\<close> returns a snap0 in which every field named in
  \<open>p\<close> has the patch's value, the state is the target state unless \<open>p\<close> names the state
  (the patch is spread last and wins), and every other field not named in \<open>p\<close> is the
  field of \<open>s\<close>. The function is pure: \<open>s\<close> itself is not changed. The counterexample is
  a patch that names the state: the result's state is the patch's, not the target.
\<close>

theorem transitionSnapshot_frame:
  assumes ok: "(state s, to) \<in> allowed_table"
  shows "\<exists>s'. transitionSnapshot s to p = Inr s'
     \<and> state s' = (case p_state p of None \<Rightarrow> to | Some v \<Rightarrow> v)
     \<and> id_s s' = (case p_id p of None \<Rightarrow> id_s s | Some v \<Rightarrow> v)
     \<and> name s' = (case p_name p of None \<Rightarrow> name s | Some v \<Rightarrow> v)
     \<and> config s' = (case p_config p of None \<Rightarrow> config s | Some v \<Rightarrow> v)
     \<and> stageIndex s' = (case p_stageIndex p of None \<Rightarrow> stageIndex s | Some v \<Rightarrow> v)
     \<and> stageEnteredAt s' = (case p_stageEnteredAt p of None \<Rightarrow> stageEnteredAt s | Some v \<Rightarrow> v)
     \<and> startedAt s' = (case p_startedAt p of None \<Rightarrow> startedAt s | Some v \<Rightarrow> v)
     \<and> completedAt s' = (case p_completedAt p of None \<Rightarrow> completedAt s | Some v \<Rightarrow> v)
     \<and> finalState s' = (case p_finalState p of None \<Rightarrow> finalState s | Some v \<Rightarrow> v)
     \<and> pausedStageIndex s' =
           (case p_pausedStageIndex p of None \<Rightarrow> pausedStageIndex s | Some v \<Rightarrow> v)
     \<and> canaryWeight s' = (case p_canaryWeight p of None \<Rightarrow> canaryWeight s | Some v \<Rightarrow> v)
     \<and> reason s' = (case p_reason p of None \<Rightarrow> reason s | Some v \<Rightarrow> v)"
proof -
  from ok have "assertTransitionAllowed (state s) to = Inr ()"
    by (cases "state s"; cases to) (simp_all add: assertTransitionAllowed_def allowed_table_def)
  then have "transitionSnapshot s to p = Inr (applyPatch (s\<lparr>state := to\<rparr>) p)"
    by (simp add: transitionSnapshot_def)
  then show ?thesis
    by (simp add: applyPatch_def over_def)
qed

theorem transitionSnapshot_frame_witness:
  "\<exists>s'. transitionSnapshot (ex_snapshot STAGE 5) PAUSED (emptyPatch\<lparr>p_pausedStageIndex := Some (Some 0)\<rparr>)
        = Inr s'
     \<and> state s' = PAUSED \<and> pausedStageIndex s' = Some 0 \<and> canaryWeight s' = 5
     \<and> stageIndex s' = 0 \<and> id_s s' = ''dep-1'' \<and> config s' = ex_config"
  using transitionSnapshot_frame [of "ex_snapshot STAGE 5" PAUSED
      "emptyPatch\<lparr>p_pausedStageIndex := Some (Some 0)\<rparr>"]
  by (auto simp add: allowed_table_def ex_snapshot_def emptyPatch_def)

theorem transitionSnapshot_frame_counterexample:
  "(state (ex_snapshot PENDING 5), STAGE) \<in> allowed_table
   \<and> (\<exists>s'. transitionSnapshot (ex_snapshot PENDING 5) STAGE (emptyPatch\<lparr>p_state := Some PROMOTED\<rparr>)
          = Inr s' \<and> state s' = PROMOTED \<and> state s' \<noteq> STAGE)"
  by (simp add: transitionSnapshot_def assertTransitionAllowed_def applyPatch_def over_def
      allowed_table_def ex_snapshot_def emptyPatch_def)

subsection \<open>Router\<close>

text \<open>
  C5 (amended). Without a snap0, or with one whose state is not PENDING, STAGE or
  PAUSED, the decision is baseline with canary weight 0 and the snap0's stage index
  (0 without a snap0). Otherwise the decision carries the snap0's weight and stage
  index; it is baseline when the weight is not positive, and else canary exactly when
  the bucket is below the weight, where the bucket is \<open>stableHash(sticky) % 100\<close> for a
  sticky value that is present and not the empty string, and \<open>floor(random * 100)\<close> when
  the sticky value is absent or empty. For a fixed snap0 and a non-empty sticky value
  the decision does not depend on the random draw. The counterexample is the empty
  sticky value: it is present, but the decision follows the random draw.
\<close>

theorem chooseVersion_decision:
  "(snap0 = None \<longrightarrow>
      chooseVersion stableHash snap0 stickyValue random
        = \<lparr> version = V_baseline, rd_canaryWeight = 0, rd_stageIndex = 0 \<rparr>)
   \<and> (\<forall>snap. snap0 = Some snap \<longrightarrow>
        (state snap \<notin> {PENDING, STAGE, PAUSED} \<longrightarrow>
           chooseVersion stableHash snap0 stickyValue random
             = \<lparr> version = V_baseline, rd_canaryWeight = 0, rd_stageIndex = stageIndex snap \<rparr>)
      \<and> (state snap \<in> {PENDING, STAGE, PAUSED} \<longrightarrow>
           rd_canaryWeight (chooseVersion stableHash snap0 stickyValue random) = canaryWeight snap
         \<and> rd_stageIndex (chooseVersion stableHash snap0 stickyValue random) = stageIndex snap
         \<and> (canaryWeight snap \<le> 0 \<longrightarrow>
              version (chooseVersion stableHash snap0 stickyValue random) = V_baseline)
         \<and> (0 < canaryWeight snap \<longrightarrow>
              (\<forall>k. stickyValue = Some k \<and> k \<noteq> [] \<longrightarrow>
                 version (chooseVersion stableHash snap0 stickyValue random)
                   = (if stableHash k smod 100 < canaryWeight snap then V_canary
                      else V_baseline))
            \<and> (stickyValue = None \<or> stickyValue = Some [] \<longrightarrow>
                 version (chooseVersion stableHash snap0 stickyValue random)
                   = (if \<lfloor>random * 100\<rfloor> < canaryWeight snap then V_canary
                      else V_baseline)))))
   \<and> (\<forall>k. stickyValue = Some k \<and> k \<noteq> [] \<longrightarrow>
        chooseVersion stableHash snap0 stickyValue random
          = chooseVersion stableHash snap0 stickyValue random')"
proof (cases snap0)
  case None
  then show ?thesis by (simp add: chooseVersion_def)
next
  case (Some snap)
  show ?thesis
  proof (cases "state snap \<in> {PENDING, STAGE, PAUSED}")
    case False
    with Some show ?thesis by (auto simp add: chooseVersion_def)
  next
    case True
    with Some show ?thesis by (auto simp add: chooseVersion_def Let_def)
  qed
qed

theorem chooseVersion_decision_witness:
  "chooseVersion ex_hash None (Some ''u1'') 0.5
     = \<lparr> version = V_baseline, rd_canaryWeight = 0, rd_stageIndex = 0 \<rparr>
   \<and> chooseVersion ex_hash (Some (ex_snapshot PROMOTED 100)) (Some ''u1'') 0.5
     = \<lparr> version = V_baseline, rd_canaryWeight = 0, rd_stageIndex = 0 \<rparr>
   \<and> version (chooseVersion ex_hash (Some (ex_snapshot PAUSED 0)) (Some ''u1'') 0.5) = V_baseline
   \<and> version (chooseVersion ex_hash (Some (ex_snapshot STAGE 5)) (Some ''u1'') 0.5) = V_canary
   \<and> version (chooseVersion ex_hash (Some (ex_snapshot STAGE 5)) None 0.5) = V_baseline
   \<and> chooseVersion ex_hash (Some (ex_snapshot STAGE 5)) (Some ''u1'') 0.5
     = chooseVersion ex_hash (Some (ex_snapshot STAGE 5)) (Some ''u1'') 0.01"
proof -
  have fl: "\<lfloor>(50::real)\<rfloor> = 50"
    using floor_of_int [of 50, where ?'a = real] by simp
  have a: "chooseVersion ex_hash None (Some ''u1'') 0.5
     = \<lparr> version = V_baseline, rd_canaryWeight = 0, rd_stageIndex = 0 \<rparr>"
    using chooseVersion_decision [of None ex_hash "Some ''u1''" "0.5" "0.5"] by simp
  have b: "chooseVersion ex_hash (Some (ex_snapshot PROMOTED 100)) (Some ''u1'') 0.5
     = \<lparr> version = V_baseline, rd_canaryWeight = 0, rd_stageIndex = 0 \<rparr>"
    using chooseVersion_decision [of "Some (ex_snapshot PROMOTED 100)" ex_hash "Some ''u1''"
        "0.5" "0.5"]
    by (simp add: ex_snapshot_def)
  have c: "version (chooseVersion ex_hash (Some (ex_snapshot PAUSED 0)) (Some ''u1'') 0.5)
     = V_baseline"
    using chooseVersion_decision [of "Some (ex_snapshot PAUSED 0)" ex_hash "Some ''u1''"
        "0.5" "0.5"]
    by (simp add: ex_snapshot_def)
  have d1: "version (chooseVersion ex_hash (Some (ex_snapshot STAGE 5)) (Some ''u1'') 0.5)
     = V_canary"
    using chooseVersion_decision [of "Some (ex_snapshot STAGE 5)" ex_hash "Some ''u1''"
        "0.5" "0.5"]
    by (simp add: ex_snapshot_def ex_hash_def signed_modulo_int_def)
  have d2: "chooseVersion ex_hash (Some (ex_snapshot STAGE 5)) (Some ''u1'') 0.5
     = chooseVersion ex_hash (Some (ex_snapshot STAGE 5)) (Some ''u1'') 0.01"
    using chooseVersion_decision [of "Some (ex_snapshot STAGE 5)" ex_hash "Some ''u1''"
        "0.5" "0.01"]
    by simp
  have e: "version (chooseVersion ex_hash (Some (ex_snapshot STAGE 5)) None 0.5) = V_baseline"
    using chooseVersion_decision [of "Some (ex_snapshot STAGE 5)" ex_hash None "0.5" "0.5"]
    by (simp add: ex_snapshot_def fl)
  from a b c d1 e d2 show ?thesis by (intro conjI)
qed

theorem chooseVersion_decision_counterexample:
  "ex_hash [] smod 100 < canaryWeight (ex_snapshot STAGE 5)
   \<and> version (chooseVersion ex_hash (Some (ex_snapshot STAGE 5)) (Some []) 0.5) = V_baseline
   \<and> chooseVersion ex_hash (Some (ex_snapshot STAGE 5)) (Some []) 0.5
       \<noteq> chooseVersion ex_hash (Some (ex_snapshot STAGE 5)) (Some []) 0.01"
proof -
  have f1: "\<lfloor>(50::real)\<rfloor> = 50"
    using floor_of_int [of 50, where ?'a = real] by simp
  have f2: "\<lfloor>(1::real)\<rfloor> = 1" by simp
  show ?thesis
    by (simp add: chooseVersion_def Let_def ex_snapshot_def ex_hash_def f1 f2)
qed

subsection \<open>Score monitor\<close>

lemma addScores_dom: "dom (addScores rnd row j names target) = dom target"
  by (induction names arbitrary: j target) (auto split: option.splits)












subsection \<open>Rollback decision\<close>

lemma find_first_with:
  "find P xs = Some x \<longleftrightarrow> (\<exists>i. first_with P xs i \<and> x = xs ! i)"
  by (auto simp add: find_Some_iff first_with_def)

lemma evaluateRollback_alt:
  assumes "snapshot c = Some s"
  shows "evaluateRollback c gs rate =
     (case find score_regression gs of
        Some g \<Rightarrow> Some (''score_regression:'' @ r_scorer g)
      | None \<Rightarrow>
          (case find (absolute_drop (rollback_d (deployment (config s)))) gs of
             Some g \<Rightarrow> Some (''absolute_drop:'' @ r_scorer g)
           | None \<Rightarrow>
               if rate > on_error_rate (rollback_d (deployment (config s)))
               then Some ''error_rate_exceeded'' else None))"
proof -
  have r: "find (\<lambda>gate. status gate = failing
                    \<and> (case pValue gate of None \<Rightarrow> False | Some p \<Rightarrow> p < 0.01)) gs
        = find score_regression gs"
    by (rule find_cong) (auto simp add: score_regression_def split: option.splits)
  have d: "find (\<lambda>gate. baselineMean gate - canaryMean gate
                    > on_score_drop (rollback_d (deployment (config s)))) gs
        = find (absolute_drop (rollback_d (deployment (config s)))) gs"
    by (rule find_cong) (simp_all add: absolute_drop_def)
  have "evaluateRollback c gs rate =
     (case find (\<lambda>gate. status gate = failing
                    \<and> (case pValue gate of None \<Rightarrow> False | Some p \<Rightarrow> p < 0.01)) gs of
        Some regressing \<Rightarrow> Some (''score_regression:'' @ r_scorer regressing)
      | None \<Rightarrow>
          (case find (\<lambda>gate. baselineMean gate - canaryMean gate
                        > on_score_drop (rollback_d (deployment (config s)))) gs of
             Some absoluteDrop \<Rightarrow> Some (''absolute_drop:'' @ r_scorer absoluteDrop)
           | None \<Rightarrow>
               if rate > on_error_rate (rollback_d (deployment (config s)))
               then Some ''error_rate_exceeded'' else None))"
    unfolding evaluateRollback_def Let_def using assms by (simp only: option.case)
  then show ?thesis
    unfolding r d .
qed

lemma score_regression_case:
  "score_regression g
     = (status g = failing \<and> (case pValue g of None \<Rightarrow> False | Some p \<Rightarrow> p < 0.01))"
  by (auto simp add: score_regression_def split: option.splits)

text \<open>
  C2. With an active deployment, for every list of gate results and every canary error
  rate, \<open>evaluateRollback\<close> returns, in this order of priority: \<open>score_regression:\<close> and the
  scorer of the first gate result that is failing with a p-value below 0.01, if there is
  one; else \<open>absolute_drop:\<close> and the scorer of the first gate result whose baseline mean
  exceeds its canary mean by more than \<open>rollback.on_score_drop\<close>, if there is one; else
  \<open>error_rate_exceeded\<close> if the error rate is above \<open>rollback.on_error_rate\<close>; else nothing.
\<close>

theorem evaluateRollback_priority:
  assumes active: "snapshot c = Some s"
  shows "((\<exists>g\<in>set gs. score_regression g) \<longrightarrow>
            (\<exists>i. first_with score_regression gs i
               \<and> evaluateRollback c gs rate = Some (''score_regression:'' @ r_scorer (gs ! i))))
     \<and> ((\<forall>g\<in>set gs. \<not> score_regression g)
          \<and> (\<exists>g\<in>set gs. absolute_drop (rollback_d (deployment (config s))) g) \<longrightarrow>
            (\<exists>i. first_with (absolute_drop (rollback_d (deployment (config s)))) gs i
               \<and> evaluateRollback c gs rate = Some (''absolute_drop:'' @ r_scorer (gs ! i))))
     \<and> ((\<forall>g\<in>set gs. \<not> score_regression g
              \<and> \<not> absolute_drop (rollback_d (deployment (config s))) g)
          \<and> rate > on_error_rate (rollback_d (deployment (config s))) \<longrightarrow>
            evaluateRollback c gs rate = Some ''error_rate_exceeded'')
     \<and> ((\<forall>g\<in>set gs. \<not> score_regression g
              \<and> \<not> absolute_drop (rollback_d (deployment (config s))) g)
          \<and> \<not> rate > on_error_rate (rollback_d (deployment (config s))) \<longrightarrow>
            evaluateRollback c gs rate = None)"
proof (intro conjI impI)
  assume "\<exists>g\<in>set gs. score_regression g"
  then obtain g where "find score_regression gs = Some g"
    by (cases "find score_regression gs") (auto simp add: find_None_iff)
  moreover from this obtain i where "first_with score_regression gs i" "g = gs ! i"
    using find_first_with by metis
  ultimately show "\<exists>i. first_with score_regression gs i
      \<and> evaluateRollback c gs rate = Some (''score_regression:'' @ r_scorer (gs ! i))"
    using evaluateRollback_alt [OF active, of gs rate] by auto
next
  let ?D = "absolute_drop (rollback_d (deployment (config s)))"
  assume a: "(\<forall>g\<in>set gs. \<not> score_regression g) \<and> (\<exists>g\<in>set gs. ?D g)"
  then have n: "find score_regression gs = None"
    by (simp add: find_None_iff)
  from a obtain g where f: "find ?D gs = Some g"
    by (cases "find ?D gs") (auto simp add: find_None_iff)
  then obtain i where "first_with ?D gs i" "g = gs ! i"
    using find_first_with by metis
  with n f show "\<exists>i. first_with ?D gs i
      \<and> evaluateRollback c gs rate = Some (''absolute_drop:'' @ r_scorer (gs ! i))"
    using evaluateRollback_alt [OF active, of gs rate] by auto
next
  let ?D = "absolute_drop (rollback_d (deployment (config s)))"
  assume a: "(\<forall>g\<in>set gs. \<not> score_regression g \<and> \<not> ?D g)
       \<and> rate > on_error_rate (rollback_d (deployment (config s)))"
  then have "find score_regression gs = None" "find ?D gs = None"
    by (simp_all add: find_None_iff)
  with a show "evaluateRollback c gs rate = Some ''error_rate_exceeded''"
    using evaluateRollback_alt [OF active, of gs rate] by simp
next
  let ?D = "absolute_drop (rollback_d (deployment (config s)))"
  assume a: "(\<forall>g\<in>set gs. \<not> score_regression g \<and> \<not> ?D g)
       \<and> \<not> rate > on_error_rate (rollback_d (deployment (config s)))"
  then have "find score_regression gs = None" "find ?D gs = None"
    by (simp_all add: find_None_iff)
  with a show "evaluateRollback c gs rate = None"
    using evaluateRollback_alt [OF active, of gs rate] by simp
qed

theorem evaluateRollback_priority_witness:
  "(\<exists>i. first_with score_regression ex_gates i
       \<and> evaluateRollback (ex_controller STAGE) ex_gates 0
           = Some (''score_regression:'' @ r_scorer (ex_gates ! i)))
   \<and> (\<exists>i. first_with (absolute_drop (rollback_d (deployment ex_config)))
              [ex_result passing None 0.9 0.9, ex_result failing (Some 0.2) 0.9 0.7] i
       \<and> evaluateRollback (ex_controller STAGE)
            [ex_result passing None 0.9 0.9, ex_result failing (Some 0.2) 0.9 0.7] 0
           = Some (''absolute_drop:''
                @ r_scorer ([ex_result passing None 0.9 0.9, ex_result failing (Some 0.2) 0.9 0.7] ! i)))
   \<and> evaluateRollback (ex_controller STAGE) [ex_result passing None 0.9 0.9] 0.07
       = Some ''error_rate_exceeded''
   \<and> evaluateRollback (ex_controller STAGE) [ex_result passing None 0.9 0.9] 0.05 = None"
proof -
  have a: "snapshot (ex_controller STAGE) = Some (ex_snapshot STAGE 5)"
    by (simp add: ex_controller_def newStageController_def)
  have cfg: "rollback_d (deployment (config (ex_snapshot STAGE 5)))
      = \<lparr> on_score_drop = 0.1, on_error_rate = 0.05, cooldown = ''5m'' \<rparr>"
    by (simp add: ex_snapshot_def ex_config_def)
  have cfg': "rollback_d (deployment ex_config)
      = \<lparr> on_score_drop = 0.1, on_error_rate = 0.05, cooldown = ''5m'' \<rparr>"
    by (simp add: ex_config_def)
  have 1: "\<exists>i. first_with score_regression ex_gates i
       \<and> evaluateRollback (ex_controller STAGE) ex_gates 0
           = Some (''score_regression:'' @ r_scorer (ex_gates ! i))"
    using evaluateRollback_priority [OF a, of ex_gates 0]
    by (simp add: ex_gates_def ex_result_def score_regression_case)
  have 2: "\<exists>i. first_with (absolute_drop (rollback_d (deployment ex_config)))
              [ex_result passing None 0.9 0.9, ex_result failing (Some 0.2) 0.9 0.7] i
       \<and> evaluateRollback (ex_controller STAGE)
            [ex_result passing None 0.9 0.9, ex_result failing (Some 0.2) 0.9 0.7] 0
           = Some (''absolute_drop:''
                @ r_scorer ([ex_result passing None 0.9 0.9, ex_result failing (Some 0.2) 0.9 0.7] ! i))"
    using evaluateRollback_priority [OF a,
        of "[ex_result passing None 0.9 0.9, ex_result failing (Some 0.2) 0.9 0.7]" 0]
    by (simp add: cfg cfg' ex_result_def score_regression_case absolute_drop_def)
  have 3: "evaluateRollback (ex_controller STAGE) [ex_result passing None 0.9 0.9] 0.07
       = Some ''error_rate_exceeded''"
    using evaluateRollback_priority [OF a, of "[ex_result passing None 0.9 0.9]" "0.07"]
    by (simp add: cfg ex_result_def score_regression_case absolute_drop_def)
  have 4: "evaluateRollback (ex_controller STAGE) [ex_result passing None 0.9 0.9] 0.05 = None"
    using evaluateRollback_priority [OF a, of "[ex_result passing None 0.9 0.9]" "0.05"]
    by (simp add: cfg ex_result_def score_regression_case absolute_drop_def)
  from 1 2 3 4 show ?thesis by (intro conjI)
qed

subsection \<open>Score updates\<close>

lemma grows_refl: "grows c c"
  by (simp add: grows_def)

lemma grows_trans: "grows a b \<Longrightarrow> grows b c \<Longrightarrow> grows a c"
  by (auto simp add: grows_def)

lemma grows_emit: "grows c (emit c now d)"
  by (simp add: grows_def emit_def Let_def split: option.splits)

lemma grows_transition: "grows c (snd (transition c to why p))"
  by (simp add: grows_def transition_def split: option.splits sum.splits)

lemma grows_seq:
  assumes "grows c (snd r)" and "\<And>c1. grows c1 (snd (f c1))"
  shows "grows c (snd (seq r f))"
proof (cases r)
  case (Pair e c1)
  show ?thesis
  proof (cases e)
    case None
    with Pair assms(1) assms(2) [of c1] show ?thesis
      by (auto simp add: seq_def intro: grows_trans)
  next
    case (Some err)
    with Pair assms(1) show ?thesis by (simp add: seq_def)
  qed
qed

lemma grows_monitor: "grows c (c\<lparr>monitor := m\<rparr>)"
  by (simp add: grows_def)

lemma grows_emit2: "grows c (emit (emit c now d1) now d2)"
  by (blast intro: grows_trans grows_emit)

lemma grows_rollback: "grows c (snd (rollback c why now))"
  unfolding rollback_def Let_def
  by (auto split: option.splits intro!: grows_seq grows_transition grows_refl grows_emit2)

lemma grows_advanceStage: "grows c (snd (advanceStage c why now))"
proof -
  have a: "\<And>c1 d. grows c1 (snd (None :: error option, emit c1 now d))"
    by (simp add: grows_emit)
  have b: "\<And>c1 d. grows c1 (snd (let c2 = (case monitor c1 of None \<Rightarrow> c1
                 | Some m \<Rightarrow> c1\<lparr>monitor := Some (resetForStage m
                     (case snapshot c1 of Some s1 \<Rightarrow> stageEnteredAt s1 | None \<Rightarrow> now))\<rparr>)
               in (None :: error option, emit c2 now d)))"
    by (auto simp add: Let_def split: option.splits intro: grows_trans grows_monitor grows_emit)
  show ?thesis
    unfolding advanceStage_def Let_def
    by (auto split: option.splits simp add: grows_refl
        intro!: grows_seq grows_transition a b [unfolded Let_def])
qed

lemma onScoreUpdate_not_stage:
  assumes "snapshot c = None \<or> (\<exists>s. snapshot c = Some s \<and> state s \<noteq> STAGE)"
  shows "onScoreUpdate c scores now = (None, c\<lparr>latestScores := scores\<rparr>)"
  using assms by (auto simp add: onScoreUpdate_def Let_def)

lemma onScoreUpdate_stage:
  assumes "snapshot c = Some s" and "state s = STAGE"
  shows "grows (c\<lparr>latestScores := scores,
                   store := store c @ [recordScoreSnapshot (id_s s) (stageIndex s) scores]\<rparr>)
           (snd (onScoreUpdate c scores now))"
proof -
  define c1 where "c1 = c\<lparr>latestScores := scores,
      store := store c @ [recordScoreSnapshot (id_s s) (stageIndex s) scores]\<rparr>"
  define c2 where "c2 = emit c1 now (E_score_update scores)"
  have g2: "grows c1 c2" by (simp add: c2_def grows_emit)
  show ?thesis
  proof (cases "evaluateStage c2 scores (currentCanaryErrorRate c2) now")
    case (Inl e)
    have "onScoreUpdate c scores now = (Some e, c2)"
      using assms Inl [unfolded c2_def c1_def]
      by (simp add: onScoreUpdate_def Let_def c1_def c2_def)
    with g2 show ?thesis by (simp add: c1_def)
  next
    case (Inr decision)
    define c3 where "c3 = c2\<lparr> latestGates := gateResults decision,
                        nextAction := sd_nextAction decision,
                        timeRemainingMs := Some (sd_timeRemainingMs decision) \<rparr>"
    define c4 where "c4 = emit c3 now
                     (E_gate_status (gateResults decision) (sd_nextAction decision)
                        (sd_timeRemainingMs decision))"
    have "grows c2 c3" by (simp add: c3_def grows_def)
    moreover have "grows c3 c4" by (simp add: c4_def grows_emit)
    ultimately have g4: "grows c1 c4" using g2 by (blast intro: grows_trans)
    have u: "onScoreUpdate c scores now =
       (if rollback_flag decision then
          rollback c4
            (case sd_reason decision of Some r \<Rightarrow> r | None \<Rightarrow> ''rollback_triggered'') now
        else if promote_d decision then advanceStage c4 ''auto_promote'' now
        else (None, c4))"
      using assms Inr [unfolded c2_def c1_def]
      by (simp add: onScoreUpdate_def Let_def c1_def c2_def c3_def c4_def)
    have "grows c4 (snd (onScoreUpdate c scores now))"
      using grows_rollback [of c4] grows_advanceStage [of c4]
      by (simp add: u grows_refl)
    with g4 show ?thesis unfolding c1_def by (blast intro: grows_trans)
  qed
qed

lemmas controller_eval =
  run_def newStageController_def startDeployment_def pause_def resume_def promote_def
  rollback_def advanceStage_def transition_def transitionSnapshot_def
  assertTransitionAllowed_def applyPatch_def over_def emit_def seq_def elementAt_def
  emptyPatch_def ex_config_def Let_def

lemma ex_paused_state:
  "\<exists>s. snapshot ex_paused = Some s \<and> state s = PAUSED \<and> id_s s = ''dep-1''"
  by (simp add: ex_paused_def controller_eval)

text \<open>
  C7 (amended). A score update always records the latest scores. Without a deployment, or
  with one whose state is not STAGE, the controller then returns: nothing is written to
  the store and no event is emitted. Only in STAGE is the score snapshot persisted, by a
  call of \<open>recordScoreSnapshot\<close> with the deployment's id and stage index, before any other
  store call of the update. The counterexample is a paused deployment: the update leaves
  the store as it was.
\<close>

theorem onScoreUpdate_persistence:
  "latestScores (snd (onScoreUpdate c scores now)) = scores
   \<and> ((snapshot c = None \<or> (\<exists>s. snapshot c = Some s \<and> state s \<noteq> STAGE)) \<longrightarrow>
        onScoreUpdate c scores now = (None, c\<lparr>latestScores := scores\<rparr>))
   \<and> (\<forall>s. snapshot c = Some s \<and> state s = STAGE \<longrightarrow>
        (\<exists>rest. store (snd (onScoreUpdate c scores now))
           = store c @ recordScoreSnapshot (id_s s) (stageIndex s) scores # rest))"
proof (intro conjI impI allI)
  show "latestScores (snd (onScoreUpdate c scores now)) = scores"
  proof (cases "snapshot c = None \<or> (\<exists>s. snapshot c = Some s \<and> state s \<noteq> STAGE)")
    case True
    from onScoreUpdate_not_stage [OF this] show ?thesis by simp
  next
    case False
    then obtain s where "snapshot c = Some s" "state s = STAGE" by auto
    from onScoreUpdate_stage [OF this] show ?thesis by (simp add: grows_def)
  qed
next
  assume "snapshot c = None \<or> (\<exists>s. snapshot c = Some s \<and> state s \<noteq> STAGE)"
  then show "onScoreUpdate c scores now = (None, c\<lparr>latestScores := scores\<rparr>)"
    by (rule onScoreUpdate_not_stage)
next
  fix s
  assume "snapshot c = Some s \<and> state s = STAGE"
  then have "grows (c\<lparr>latestScores := scores,
                   store := store c @ [recordScoreSnapshot (id_s s) (stageIndex s) scores]\<rparr>)
           (snd (onScoreUpdate c scores now))"
    using onScoreUpdate_stage by blast
  then show "\<exists>rest. store (snd (onScoreUpdate c scores now))
           = store c @ recordScoreSnapshot (id_s s) (stageIndex s) scores # rest"
    by (auto simp add: grows_def)
qed

theorem onScoreUpdate_persistence_witness:
  "onScoreUpdate ex_paused ex_scores 2000 = (None, ex_paused\<lparr>latestScores := ex_scores\<rparr>)
   \<and> latestScores (snd (onScoreUpdate (ex_controller STAGE) ex_scores 2000)) = ex_scores
   \<and> (\<exists>rest. store (snd (onScoreUpdate (ex_controller STAGE) ex_scores 2000))
          = recordScoreSnapshot ''dep-1'' 0 ex_scores # rest)"
proof -
  have a: "snapshot (ex_controller STAGE) = Some (ex_snapshot STAGE 5)"
    "store (ex_controller STAGE) = []"
    by (simp_all add: ex_controller_def newStageController_def)
  have b: "state (ex_snapshot STAGE 5) = STAGE" "id_s (ex_snapshot STAGE 5) = ''dep-1''"
    "stageIndex (ex_snapshot STAGE 5) = 0"
    by (simp_all add: ex_snapshot_def)
  obtain s where p: "snapshot ex_paused = Some s" "state s = PAUSED"
    using ex_paused_state by blast
  have 1: "onScoreUpdate ex_paused ex_scores 2000 = (None, ex_paused\<lparr>latestScores := ex_scores\<rparr>)"
    using onScoreUpdate_persistence [of ex_paused ex_scores 2000] p by simp
  have 2: "latestScores (snd (onScoreUpdate (ex_controller STAGE) ex_scores 2000)) = ex_scores
     \<and> (\<exists>rest. store (snd (onScoreUpdate (ex_controller STAGE) ex_scores 2000))
          = recordScoreSnapshot ''dep-1'' 0 ex_scores # rest)"
    using onScoreUpdate_persistence [of "ex_controller STAGE" ex_scores 2000] a b by simp
  from 1 2 show ?thesis by simp
qed

theorem onScoreUpdate_persistence_counterexample:
  "(\<exists>s. snapshot ex_paused = Some s \<and> state s = PAUSED)
   \<and> store (snd (onScoreUpdate ex_paused ex_scores 2000)) = store ex_paused
   \<and> latestScores (snd (onScoreUpdate ex_paused ex_scores 2000)) = ex_scores"
proof -
  obtain s where p: "snapshot ex_paused = Some s" "state s = PAUSED"
    using ex_paused_state by blast
  then have "onScoreUpdate ex_paused ex_scores 2000 = (None, ex_paused\<lparr>latestScores := ex_scores\<rparr>)"
    using onScoreUpdate_not_stage [of ex_paused ex_scores 2000] by simp
  with p show ?thesis by simp
qed

subsection \<open>Weight invariant\<close>

lemma snapshotsOf_emit: "snapshotsOf (emit c now d) = snapshotsOf c"
  by (auto simp add: snapshotsOf_def emit_def Let_def split: option.splits)

lemma allOk_emit: "allOk (emit c now d) = allOk c"
  by (simp add: allOk_def snapshotsOf_emit)

lemma allOk_monitor: "allOk (c\<lparr>monitor := m\<rparr>) = allOk c"
  by (simp add: allOk_def snapshotsOf_def)

lemma transitionSnapshot_Inr:
  "transitionSnapshot s to p = Inr s' \<Longrightarrow> s' = applyPatch (s\<lparr>state := to\<rparr>) p"
  by (auto simp add: transitionSnapshot_def split: sum.splits)

lemma allOk_transition:
  assumes ok: "allOk c"
    and new: "\<And>s. snapshot c = Some s \<Longrightarrow> weightInvariant s
                \<Longrightarrow> weightInvariant (applyPatch (s\<lparr>state := to\<rparr>) p)"
  shows "allOk (snd (transition c to why p))"
proof (cases "snapshot c")
  case None
  with ok show ?thesis by (simp add: transition_def)
next
  case (Some s)
  with ok have inv: "weightInvariant s" by (simp add: allOk_def snapshotsOf_def)
  show ?thesis
  proof (cases "transitionSnapshot s to p")
    case (Inl e)
    with Some ok show ?thesis by (simp add: transition_def)
  next
    case (Inr s')
    then have "weightInvariant s'"
      using new [OF Some inv] transitionSnapshot_Inr by blast
    with ok Some Inr show ?thesis
      by (auto simp add: transition_def allOk_def snapshotsOf_def)
  qed
qed

lemma allOk_seq:
  assumes "allOk (snd r)" and "\<And>c1. allOk c1 \<Longrightarrow> allOk (snd (f c1))"
  shows "allOk (snd (seq r f))"
  using assms by (cases r) (auto simp add: seq_def split: option.splits)

lemma allOk_startDeployment:
  assumes "allOk c"
  shows "allOk (snd (startDeployment c cfg depId now))"
proof (cases "elementAt (stages (deployment cfg)) 0")
  case None
  with assms show ?thesis by (simp add: startDeployment_def)
next
  case (Some firstStage)
  define pending where "pending = \<lparr> id_s = depId, name = name_d (deployment cfg), config = cfg,
                 state = PENDING, stageIndex = 0, stageEnteredAt = now, startedAt = now,
                 completedAt = None, finalState = None, pausedStageIndex = None,
                 canaryWeight = weight firstStage, reason = None \<rparr>"
  define c1 where "c1 = c\<lparr> store := store c @ [createDeployment pending], snapshot := Some pending \<rparr>"
  define c2 where "c2 = emit c1 now
                     (E_deployment_started depId (name pending) 0 (weight firstStage))"
  have "weightInvariant pending" by (simp add: weightInvariant_def pending_def)
  with assms have "allOk c1"
    by (auto simp add: allOk_def snapshotsOf_def c1_def)
  then have ok2: "allOk c2" by (simp add: c2_def allOk_emit)
  have snap2: "snapshot c2 = Some pending"
    by (simp add: c2_def c1_def emit_def Let_def)
  have "allOk (snd (transition c2 STAGE ''deployment_initialized''
               (emptyPatch\<lparr> p_canaryWeight := Some (weight firstStage),
                             p_stageEnteredAt := Some now \<rparr>)))"
  proof (rule allOk_transition [OF ok2])
    fix s
    assume "snapshot c2 = Some s"
    with snap2 have "s = pending" by simp
    then show "weightInvariant (applyPatch (s\<lparr>state := STAGE\<rparr>)
        (emptyPatch\<lparr> p_canaryWeight := Some (weight firstStage), p_stageEnteredAt := Some now \<rparr>))"
      using Some
      by (simp add: weightInvariant_def applyPatch_def over_def emptyPatch_def pending_def)
  qed
  then show ?thesis
    using Some by (simp add: startDeployment_def Let_def pending_def c1_def c2_def)
qed

lemma allOk_pause:
  assumes "allOk c"
  shows "allOk (snd (pause c now))"
proof (cases "snapshot c")
  case None
  with assms show ?thesis by (simp add: pause_def)
next
  case (Some s)
  show ?thesis
  proof (cases "state s = STAGE")
    case False
    with Some assms show ?thesis by (simp add: pause_def)
  next
    case True
    have t: "allOk (snd (transition c PAUSED ''manual_pause''
                      (emptyPatch\<lparr> p_pausedStageIndex := Some (Some (stageIndex s)) \<rparr>)))"
    proof (rule allOk_transition [OF assms])
      fix s0
      assume "snapshot c = Some s0" and "weightInvariant s0"
      with Some True show "weightInvariant (applyPatch (s0\<lparr>state := PAUSED\<rparr>)
          (emptyPatch\<lparr> p_pausedStageIndex := Some (Some (stageIndex s)) \<rparr>))"
        by (simp add: weightInvariant_def applyPatch_def over_def emptyPatch_def)
    qed
    show ?thesis
      using Some True
      by (auto simp add: pause_def allOk_emit intro!: allOk_seq t)
  qed
qed

lemma allOk_resume:
  assumes "allOk c"
  shows "allOk (snd (resume c now))"
proof (cases "snapshot c")
  case None
  with assms show ?thesis by (simp add: resume_def)
next
  case (Some s)
  define idx where "idx = (case pausedStageIndex s of Some i \<Rightarrow> i | None \<Rightarrow> stageIndex s)"
  show ?thesis
  proof (cases "state s = PAUSED \<and> elementAt (stages (deployment (config s))) idx \<noteq> None")
    case False
    with Some assms show ?thesis
      by (auto simp add: resume_def Let_def idx_def)
  next
    case True
    then obtain stage where st: "elementAt (stages (deployment (config s))) idx = Some stage"
      by auto
    have t: "allOk (snd (transition c STAGE ''manual_resume''
                          (emptyPatch\<lparr> p_stageIndex := Some idx,
                                        p_stageEnteredAt := Some now,
                                        p_pausedStageIndex := Some None,
                                        p_canaryWeight := Some (weight stage) \<rparr>)))"
    proof (rule allOk_transition [OF assms])
      fix s0
      assume "snapshot c = Some s0"
      with Some st show "weightInvariant (applyPatch (s0\<lparr>state := STAGE\<rparr>)
          (emptyPatch\<lparr> p_stageIndex := Some idx, p_stageEnteredAt := Some now,
                        p_pausedStageIndex := Some None,
                        p_canaryWeight := Some (weight stage) \<rparr>))"
        by (simp add: weightInvariant_def applyPatch_def over_def emptyPatch_def)
    qed
    show ?thesis
      using Some True st
      by (auto simp add: resume_def Let_def idx_def [symmetric] allOk_emit intro!: allOk_seq t)
  qed
qed

lemma allOk_rollback:
  assumes "allOk c"
  shows "allOk (snd (rollback c why now))"
proof -
  have t1: "allOk (snd (transition c ROLLING_BACK why
                   (emptyPatch\<lparr> p_canaryWeight := Some 0, p_reason := Some (Some why) \<rparr>)))"
    by (rule allOk_transition [OF assms])
       (simp add: weightInvariant_def applyPatch_def over_def emptyPatch_def)
  have t2: "\<And>c1. allOk c1 \<Longrightarrow> allOk (snd (transition c1 ROLLED_BACK why
                        (emptyPatch\<lparr> p_finalState := Some (Some Final_ROLLED_BACK),
                                      p_completedAt := Some (Some now),
                                      p_canaryWeight := Some 0,
                                      p_reason := Some (Some why) \<rparr>)))"
    by (rule allOk_transition)
       (simp_all add: weightInvariant_def applyPatch_def over_def emptyPatch_def)
  show ?thesis
    using assms unfolding rollback_def Let_def
    by (auto split: option.splits simp add: allOk_emit intro!: allOk_seq t1 t2)
qed

lemma allOk_advanceStage:
  assumes "allOk c"
  shows "allOk (snd (advanceStage c why now))"
proof (cases "snapshot c")
  case None
  with assms show ?thesis by (simp add: advanceStage_def)
next
  case (Some s)
  have t1: "allOk (snd (transition c PROMOTED why
                      (emptyPatch\<lparr> p_canaryWeight := Some 100,
                                    p_finalState := Some (Some Final_PROMOTED),
                                    p_completedAt := Some (Some now) \<rparr>)))"
    by (rule allOk_transition [OF assms])
       (simp add: weightInvariant_def applyPatch_def over_def emptyPatch_def)
  have t2: "\<And>nxt. elementAt (stages (deployment (config s))) (stageIndex s + 1) = Some nxt \<Longrightarrow>
      allOk (snd (transition c STAGE why
                           (emptyPatch\<lparr> p_stageIndex := Some (stageIndex s + 1),
                                         p_stageEnteredAt := Some now,
                                         p_canaryWeight := Some (weight nxt) \<rparr>)))"
  proof (rule allOk_transition [OF assms])
    fix nxt s0
    assume "elementAt (stages (deployment (config s))) (stageIndex s + 1) = Some nxt"
      and "snapshot c = Some s0"
    with Some show "weightInvariant (applyPatch (s0\<lparr>state := STAGE\<rparr>)
          (emptyPatch\<lparr> p_stageIndex := Some (stageIndex s + 1), p_stageEnteredAt := Some now,
                        p_canaryWeight := Some (weight nxt) \<rparr>))"
      by (simp add: weightInvariant_def applyPatch_def over_def emptyPatch_def)
  qed
  have m: "\<And>c1 d. allOk c1 \<Longrightarrow> allOk (emit (case monitor c1 of None \<Rightarrow> c1
                 | Some m \<Rightarrow> c1\<lparr>monitor := Some (resetForStage m
                     (case snapshot c1 of Some s1 \<Rightarrow> stageEnteredAt s1 | None \<Rightarrow> now))\<rparr>) now d)"
    by (simp add: allOk_emit allOk_monitor split: option.splits)
  show ?thesis
    using Some assms unfolding advanceStage_def Let_def
    by (auto split: option.splits simp add: allOk_emit allOk_monitor m intro!: allOk_seq t1 t2)
qed

lemma allOk_promote:
  assumes "allOk c"
  shows "allOk (snd (promote c force now))"
  using assms allOk_advanceStage [OF assms, of "''manual_promote''" now]
  by (auto simp add: promote_def split: option.splits sum.splits)

lemma allOk_onScoreUpdate:
  assumes "allOk c"
  shows "allOk (snd (onScoreUpdate c scores now))"
proof (cases "snapshot c = None \<or> (\<exists>s. snapshot c = Some s \<and> state s \<noteq> STAGE)")
  case True
  from onScoreUpdate_not_stage [OF this, of scores now] assms show ?thesis
    by (simp add: allOk_def snapshotsOf_def)
next
  case False
  then obtain s where s: "snapshot c = Some s" "state s = STAGE" by auto
  define c2 where "c2 = emit (c\<lparr>latestScores := scores,
      store := store c @ [recordScoreSnapshot (id_s s) (stageIndex s) scores]\<rparr>)
        now (E_score_update scores)"
  have ok2: "allOk c2"
    using assms by (simp add: c2_def allOk_emit) (simp add: allOk_def snapshotsOf_def)
  show ?thesis
  proof (cases "evaluateStage c2 scores (currentCanaryErrorRate c2) now")
    case (Inl e)
    have "onScoreUpdate c scores now = (Some e, c2)"
      using s Inl [unfolded c2_def]
      by (simp add: onScoreUpdate_def Let_def c2_def)
    with ok2 show ?thesis by simp
  next
    case (Inr decision)
    define c4 where "c4 = emit (c2\<lparr> latestGates := gateResults decision,
                        nextAction := sd_nextAction decision,
                        timeRemainingMs := Some (sd_timeRemainingMs decision) \<rparr>) now
                     (E_gate_status (gateResults decision) (sd_nextAction decision)
                        (sd_timeRemainingMs decision))"
    have ok4: "allOk c4"
      using ok2 by (simp add: c4_def allOk_emit) (simp add: allOk_def snapshotsOf_def)
    have u: "onScoreUpdate c scores now =
       (if rollback_flag decision then
          rollback c4
            (case sd_reason decision of Some r \<Rightarrow> r | None \<Rightarrow> ''rollback_triggered'') now
        else if promote_d decision then advanceStage c4 ''auto_promote'' now
        else (None, c4))"
      using s Inr [unfolded c2_def]
      by (simp add: onScoreUpdate_def Let_def c2_def c4_def)
    show ?thesis
      using ok4 allOk_rollback [OF ok4] allOk_advanceStage [OF ok4]
      by (simp add: u)
  qed
qed

lemma allOk_perform: "allOk c \<Longrightarrow> allOk (perform c op)"
  by (cases op)
     (simp_all add: allOk_startDeployment allOk_onScoreUpdate allOk_pause allOk_resume
        allOk_promote allOk_rollback attachMonitor_def allOk_monitor)

lemma allOk_run: "allOk (run ops)"
proof (induction ops rule: rev_induct)
  case Nil
  show ?case by (simp add: run_def allOk_def snapshotsOf_def newStageController_def)
next
  case (snoc op ops)
  then show ?case by (simp add: run_def allOk_perform)
qed

lemma ex_ops_state:
  "\<exists>s. snapshot (run ex_ops) = Some s \<and> state s = PROMOTED"
  by (simp add: ex_ops_def controller_eval)

lemma ex_paused_weight:
  "\<exists>s. snapshot ex_paused = Some s \<and> state s = PAUSED \<and> stageIndex s = 0
       \<and> config s = ex_config"
  by (simp add: ex_paused_def controller_eval)

text \<open>
  C3. In every run of the controller (start, score updates with the rollback or stage
  advance they trigger, pause, resume, promote, rollback), every snapshot the controller
  holds or has handed to the store satisfies: in STAGE or PAUSED the canary weight is the
  weight of the stage at the snapshot's stage index in its configuration; in ROLLING_BACK
  or ROLLED_BACK it is 0; in PROMOTED it is 100.
\<close>

theorem canaryWeight_invariant:
  "\<forall>s\<in>snapshotsOf (run ops).
     (state s \<in> {STAGE, PAUSED} \<longrightarrow>
        (\<exists>st. elementAt (stages (deployment (config s))) (stageIndex s) = Some st
              \<and> canaryWeight s = weight st))
     \<and> (state s \<in> {ROLLING_BACK, ROLLED_BACK} \<longrightarrow> canaryWeight s = 0)
     \<and> (state s = PROMOTED \<longrightarrow> canaryWeight s = 100)"
  using allOk_run [of ops] unfolding allOk_def weightInvariant_def by blast

theorem canaryWeight_invariant_witness:
  "(\<exists>s. snapshot (run ex_ops) = Some s \<and> state s = PROMOTED \<and> canaryWeight s = 100)
   \<and> (\<exists>s. snapshot (run [Op_startDeployment ex_config ''dep-1'' 1000, Op_pause 1500]) = Some s
          \<and> state s = PAUSED \<and> canaryWeight s = 5)"
proof -
  obtain s where s: "snapshot (run ex_ops) = Some s" "state s = PROMOTED"
    using ex_ops_state by blast
  then have "s \<in> snapshotsOf (run ex_ops)" by (simp add: snapshotsOf_def)
  with s canaryWeight_invariant [of ex_ops] have 1: "canaryWeight s = 100" by blast
  obtain p where p: "snapshot ex_paused = Some p" "state p = PAUSED" "stageIndex p = 0"
    "config p = ex_config"
    using ex_paused_weight by blast
  then have "p \<in> snapshotsOf (run [Op_startDeployment ex_config ''dep-1'' 1000, Op_pause 1500])"
    by (simp add: snapshotsOf_def ex_paused_def)
  with p canaryWeight_invariant [of "[Op_startDeployment ex_config ''dep-1'' 1000, Op_pause 1500]"]
  have "\<exists>st. elementAt (stages (deployment (config p))) (stageIndex p) = Some st
              \<and> canaryWeight p = weight st"
    by blast
  with p have 2: "canaryWeight p = 5"
    by (auto simp add: elementAt_def ex_config_def)
  from s 1 p 2 show ?thesis by (auto simp add: ex_paused_def)
qed

end
